theory Spec2Isabelle
  imports Complex_Main "HOL-Library.Sublist" "HOL-Library.AList"
begin

section \<open>JavaScript string primitives\<close>

text \<open>
  Strings are byte strings (the UTF-8 encoding of the JavaScript text). The functions below
  are the fragments of \<^verbatim>\<open>String.prototype\<close> that the chatbot uses:
  \<^verbatim>\<open>toLowerCase\<close> (on the ASCII letters; other bytes are kept),
  \<^verbatim>\<open>includes\<close>, \<^verbatim>\<open>split(' ')\<close> and
  \<^verbatim>\<open>Array.prototype.join(' ')\<close>.
\<close>

text \<open>
  The ASCII capital letters are the codes \<open>0x41\<close> to \<open>0x5A\<close>: bits 7 to 5 are \<open>010\<close> and
  the low five bits hold a value from 1 to 26. Lower-casing sets bit 5, which adds \<open>0x20\<close>.
\<close>

fun lower_char :: "char \<Rightarrow> char" where
  "lower_char (Char b0 b1 b2 b3 b4 b5 b6 b7) =
     (if \<not> b7 \<and> b6 \<and> \<not> b5
         \<and> (b0 \<or> b1 \<or> b2 \<or> b3 \<or> b4)
         \<and> \<not> (b4 \<and> b3 \<and> (b2 \<or> (b1 \<and> b0)))
      then Char b0 b1 b2 b3 b4 True b6 b7
      else Char b0 b1 b2 b3 b4 b5 b6 b7)"

definition toLowerCase :: "string \<Rightarrow> string" where
  "toLowerCase s = map lower_char s"

text \<open>\<^verbatim>\<open>s.startsWith(sub)\<close>, comparing character by character from the left.\<close>

fun starts_with :: "string \<Rightarrow> string \<Rightarrow> bool" where
  "starts_with s [] = True"
| "starts_with [] (y # ys) = False"
| "starts_with (x # xs) (y # ys) = (if x = y then starts_with xs ys else False)"

text \<open>\<^verbatim>\<open>s.includes(sub)\<close>: \<open>sub\<close> occurs in \<open>s\<close> at some position, tried from the left.\<close>

primrec str_includes :: "string \<Rightarrow> string \<Rightarrow> bool" where
  "str_includes [] sub = (sub = [])"
| "str_includes (c # cs) sub =
     (if starts_with (c # cs) sub then True else str_includes cs sub)"

text \<open>
  \<^verbatim>\<open>s.split(' ')\<close>: the pieces between single space characters. The result is never
  empty: \<^verbatim>\<open>"".split(' ')\<close> is \<^verbatim>\<open>[""]\<close>, and two adjacent spaces give an empty piece.
\<close>

fun split_space :: "string \<Rightarrow> string list" where
  "split_space [] = [[]]"
| "split_space (c # cs) =
     (if c = CHR '' '' then [] # split_space cs
      else (case split_space cs of
              [] \<Rightarrow> [[c]]
            | w # ws \<Rightarrow> (c # w) # ws))"

text \<open>\<^verbatim>\<open>words.join(' ')\<close>.\<close>

fun join_space :: "string list \<Rightarrow> string" where
  "join_space [] = []"
| "join_space [w] = w"
| "join_space (w # v # ws) = w @ CHR '' '' # join_space (v # ws)"


section \<open>The knowledge base and its search (server, \<^verbatim>\<open>searchKnowledgeBase\<close>)\<close>

record kb_data =
  kb_content :: string
  kb_keywords :: "string list"

text \<open>One element of the \<^verbatim>\<open>results\<close> array: \<^verbatim>\<open>{topic, content, relevance}\<close>.\<close>

record retrieval =
  topic :: string
  content :: string
  relevance :: nat

definition kb_content_1 :: string where
  "kb_content_1 =
     ''NIST 800-88 Rev.1 provides comprehensive guidelines for media '' @
     ''sanitization. \<newline>'' @
     ''        It defines three types of sanitization: Clear (logical '' @
     ''techniques), Purge (physical or logical \<newline>'' @
     ''        techniques that render data recovery infeasible), and '' @
     ''Destroy (physical destruction of media).\<newline>'' @
     ''        The Sayonara platform implements these standards with '' @
     ''military-grade security.''"

definition kb_content_2 :: string where
  "kb_content_2 =
     ''Our blockchain verification system uses Ethereum's Sepolia testnet '' @
     ''to create \<newline>'' @
     ''        tamper-proof certificates for each data wipe. Each certificate '' @
     ''contains a cryptographic \<newline>'' @
     ''        hash of the wiping process, timestamp, device identifier, '' @
     ''and verification status. \<newline>'' @
     ''        This provides immutable proof of compliance that can '' @
     ''be audited by third parties.''"

definition kb_content_3 :: string where
  "kb_content_3 =
     ''The dual-phase sanitization process first overwrites all sectors '' @
     ''with random data \<newline>'' @
     ''        (Phase 1), then performs a cryptographic erasure using '' @
     ''device-specific commands like \<newline>'' @
     ''        ATA Secure Erase or NVMe Sanitize (Phase 2). This ensures '' @
     ''complete data destruction \<newline>'' @
     ''        even on modern SSDs with wear leveling and hidden areas.''"

definition kb_content_4 :: string where
  "kb_content_4 =
     ''The Sayonara data wiping process includes: 1) Device detection '' @
     ''and identification, \<newline>'' @
     ''        2) Unlocking of hidden areas (HPA/DCO/OPAL), 3) Selection '' @
     ''of appropriate wiping method, \<newline>'' @
     ''        4) Dual-phase sanitization execution, 5) Forensic recovery '' @
     ''testing, 6) Re-wiping if needed, \<newline>'' @
     ''        7) Certificate generation and blockchain recording, '' @
     ''8) Resale value estimation.''"

definition kb_content_5 :: string where
  "kb_content_5 =
     ''Secure data wiping enables safe recycling and resale of IT assets, '' @
     ''reducing e-waste \<newline>'' @
     ''        by up to 70%. Each properly wiped and recycled device '' @
     ''saves approximately 24kg of CO'' @
     [CHR 0xE2, CHR 0x82, CHR 0x82] @
     '' \<newline>'' @
     ''        emissions and prevents toxic materials from entering '' @
     ''landfills. Our CSR dashboard tracks \<newline>'' @
     ''        and quantifies environmental impact metrics.''"

definition knowledgeBase :: "(string \<times> kb_data) list" where
  "knowledgeBase =
    [(''NIST 800-88'', \<lparr>kb_content = kb_content_1,
       kb_keywords = [''NIST'', ''standards'', ''sanitization'', ''security'', ''guidelines'']\<rparr>),
     (''Blockchain Verification'', \<lparr>kb_content = kb_content_2,
       kb_keywords = [''blockchain'', ''verification'', ''certificate'', ''ethereum'', ''sepolia'', ''proof'']\<rparr>),
     (''Dual-Phase Sanitization'', \<lparr>kb_content = kb_content_3,
       kb_keywords = [''dual-phase'', ''sanitization'', ''overwrite'', ''secure'', ''erase'', ''SSD'', ''NVMe'']\<rparr>),
     (''Data Wiping Process'', \<lparr>kb_content = kb_content_4,
       kb_keywords = [''wiping'', ''process'', ''steps'', ''forensic'', ''recovery'', ''certificate'']\<rparr>),
     (''Environmental Impact'', \<lparr>kb_content = kb_content_5,
       kb_keywords = [''environmental'', ''impact'', ''recycling'', ''e-waste'', ''CO2'', ''sustainability'']\<rparr>)]"

text \<open>
  \<^verbatim>\<open>data.keywords.reduce((score, keyword) => score + (queryLower.includes(keyword.toLowerCase()) ? 1 : 0), 0)\<close>
\<close>

definition relevanceScore :: "string \<Rightarrow> string list \<Rightarrow> nat" where
  "relevanceScore queryLower kws =
     foldl (\<lambda>score keyword. score + (if str_includes queryLower (toLowerCase keyword) then 1 else 0))
       0 kws"

text \<open>
  The \<^verbatim>\<open>for (const [topic, data] of Object.entries(knowledgeBase))\<close> loop: the entries are
  visited in insertion order and a matching entry is pushed at the end of \<^verbatim>\<open>results\<close>.
\<close>

fun scan_entries :: "string \<Rightarrow> (string \<times> kb_data) list \<Rightarrow> retrieval list" where
  "scan_entries queryLower [] = []"
| "scan_entries queryLower ((tp, data) # rest) =
     (let score = relevanceScore queryLower (kb_keywords data) in
      if score > 0 \<or> str_includes queryLower (toLowerCase tp)
      then \<lparr>topic = tp, content = kb_content data,
            relevance = score + (if str_includes queryLower (toLowerCase tp) then 5 else 0)\<rparr>
           # scan_entries queryLower rest
      else scan_entries queryLower rest)"

text \<open>The loop's test and the object it pushes, as functions of one entry.\<close>

definition entry_matches :: "string \<Rightarrow> string \<times> kb_data \<Rightarrow> bool" where
  "entry_matches queryLower e =
     (relevanceScore queryLower (kb_keywords (snd e)) > 0
      \<or> str_includes queryLower (toLowerCase (fst e)))"

definition entry_result :: "string \<Rightarrow> string \<times> kb_data \<Rightarrow> retrieval" where
  "entry_result queryLower e =
     \<lparr>topic = fst e, content = kb_content (snd e),
      relevance = relevanceScore queryLower (kb_keywords (snd e))
                  + (if str_includes queryLower (toLowerCase (fst e)) then 5 else 0)\<rparr>"

text \<open>
  \<^verbatim>\<open>results.sort((a, b) => b.relevance - a.relevance).slice(0, 3)\<close>.
  \<^verbatim>\<open>Array.prototype.sort\<close> is a stable sort; with this comparator it orders by descending
  relevance, which is the stable insertion sort on the key \<open>- relevance\<close>.
\<close>

definition sort_by_relevance :: "retrieval list \<Rightarrow> retrieval list" where
  "sort_by_relevance results = sort_key (\<lambda>r. - int (relevance r)) results"

definition search_in :: "(string \<times> kb_data) list \<Rightarrow> string \<Rightarrow> retrieval list" where
  "search_in kb query =
     (let queryLower = toLowerCase query in
      take 3 (sort_by_relevance (scan_entries queryLower kb)))"

definition searchKnowledgeBase :: "string \<Rightarrow> retrieval list" where
  "searchKnowledgeBase query = search_in knowledgeBase query"

section \<open>Simulated streaming in the browser client (\<^verbatim>\<open>ChatbotAPI.demoStream\<close>)\<close>

definition responses_wiping :: string where
  "responses_wiping =
     ''The Sayonara platform uses military-grade NIST 800-88 compliant '' @
     ''data sanitization. Our dual-phase process ensures complete erasure '' @
     ''with blockchain verification.''"


definition responses_blockchain :: string where
  "responses_blockchain =
     ''Each data wipe generates a tamper-proof certificate stored on '' @
     ''the Ethereum Sepolia testnet. This provides immutable proof '' @
     ''of compliance.''"


definition responses_rag :: string where
  "responses_rag =
     ''Our RAG (Retrieval Augmented Generation) system enhances responses '' @
     ''with real-time data from our knowledge base about secure data '' @
     ''wiping procedures.''"


definition responses_default :: string where
  "responses_default =
     ''I understand your query about the Sayonara data wiping solution. '' @
     ''Our platform offers comprehensive secure erasure with AI guidance '' @
     ''and blockchain verification.''"


text \<open>The canned response is chosen from the lower-cased message, first match first.\<close>

definition demo_response :: "string \<Rightarrow> string" where
  "demo_response message =
     (let lower = toLowerCase message in
      if str_includes lower ''wip'' then responses_wiping
      else if str_includes lower ''blockchain'' then responses_blockchain
      else if str_includes lower ''rag'' then responses_rag
      else responses_default)"

text \<open>
  The state that the interval callback closes over: \<^verbatim>\<open>response\<close>, \<^verbatim>\<open>words\<close>,
  \<^verbatim>\<open>index\<close> and the interval handle (\<open>interval_set\<close> holds until \<^verbatim>\<open>clearInterval\<close>
  is called on it). \<open>chunks\<close> records the calls \<^verbatim>\<open>onChunk(content, isFinal)\<close>, oldest first.
\<close>

record demo_stream =
  response :: string
  words :: "string list"
  index :: nat
  interval_set :: bool
  chunks :: "(string \<times> bool) list"

text \<open>The state when \<^verbatim>\<open>demoStream(message, onChunk)\<close> returns: the interval is set, nothing is emitted.\<close>

definition demoStream :: "string \<Rightarrow> demo_stream" where
  "demoStream message =
     (let r = demo_response message in
      \<lparr>response = r, words = split_space r, index = 0, interval_set = True, chunks = []\<rparr>)"

text \<open>The body of the callback given to \<^verbatim>\<open>setInterval(..., 100)\<close>.\<close>

definition interval_callback :: "demo_stream \<Rightarrow> demo_stream" where
  "interval_callback st =
     (if index st < length (words st)
      then st\<lparr>chunks := chunks st @ [(join_space (take (index st + 1) (words st)), False)],
              index := index st + 1\<rparr>
      else st\<lparr>interval_set := False, chunks := chunks st @ [(response st, True)]\<rparr>)"

text \<open>
  One period of the timer: the runtime calls the callback of an interval that is still set,
  and never that of a cleared one.
\<close>

definition timer_period :: "demo_stream \<Rightarrow> demo_stream" where
  "timer_period st = (if interval_set st then interval_callback st else st)"

text \<open>The function that \<^verbatim>\<open>demoStream\<close> returns: \<^verbatim>\<open>() => clearInterval(interval)\<close>.\<close>

definition cleanup :: "demo_stream \<Rightarrow> demo_stream" where
  "cleanup st = st\<lparr>interval_set := False\<rparr>"

section \<open>Simulated streaming on the server (\<^verbatim>\<open>GET /api/chat/stream\<close>)\<close>

text \<open>
  The handler's loop state. \<open>written\<close> records the frames given to \<^verbatim>\<open>res.write\<close> as
  \<^verbatim>\<open>{content, done}\<close>, oldest first; \<open>timeouts\<close> counts the \<^verbatim>\<open>setTimeout(resolve, 50)\<close>
  delays awaited so far; \<open>ended\<close> is set by \<^verbatim>\<open>res.end()\<close>. \<open>client_connected\<close> is the state of
  the connection: the handler registers no listener for its close event and never reads it, and
  \<^verbatim>\<open>res.write\<close> on a closed connection does not throw.
\<close>

record sse_stream =
  sse_words :: "string list"
  i :: nat
  currentText :: string
  written :: "(string \<times> bool) list"
  timeouts :: nat
  ended :: bool
  client_connected :: bool

definition sse_start :: "string \<Rightarrow> sse_stream" where
  "sse_start responseText =
     \<lparr>sse_words = split_space responseText, i = 0, currentText = [], written = [],
      timeouts = 0, ended = False, client_connected = True\<rparr>"

text \<open>One iteration of \<^verbatim>\<open>for (let i = 0; i < words.length; i++)\<close>, up to the end of its delay.\<close>

definition sse_iteration :: "sse_stream \<Rightarrow> sse_stream" where
  "sse_iteration st =
     (let text = currentText st @ (if i st > 0 then '' '' else []) @ sse_words st ! i st in
      st\<lparr>currentText := text,
         written := written st @ [(text, i st = length (sse_words st) - 1)],
         timeouts := timeouts st + 1,
         i := i st + 1\<rparr>)"

text \<open>The loop from the current state, followed by \<^verbatim>\<open>res.end()\<close>.\<close>

function sse_loop :: "sse_stream \<Rightarrow> sse_stream" where
  "sse_loop st =
     (if i st < length (sse_words st) then sse_loop (sse_iteration st)
      else st\<lparr>ended := True\<rparr>)"
  by pat_completeness auto
termination
  by (relation "measure (\<lambda>st. length (sse_words st) - i st)") (auto simp: sse_iteration_def Let_def)

declare sse_loop.simps [simp del]

text \<open>The client closes the connection (\<^verbatim>\<open>eventSource.close()\<close>) while the handler awaits a delay.\<close>

definition client_closes :: "sse_stream \<Rightarrow> sse_stream" where
  "client_closes st = st\<lparr>client_connected := False\<rparr>"

section \<open>Closed forms of the two streams\<close>

text \<open>The non-final events of the cumulative prefixes of 1 to \<open>k\<close> words.\<close>

definition prefixes_upto :: "string list \<Rightarrow> nat \<Rightarrow> (string \<times> bool) list" where
  "prefixes_upto ws k = map (\<lambda>j. (join_space (take j ws), False)) [1..<Suc k]"

text \<open>The state of the server's loop after \<open>k\<close> iterations over the words \<open>ws\<close>.\<close>

definition sse_at :: "string list \<Rightarrow> nat \<Rightarrow> bool \<Rightarrow> sse_stream" where
  "sse_at ws k c =
     \<lparr>sse_words = ws, i = k, currentText = join_space (take k ws),
      written = map (\<lambda>j. (join_space (take j ws), j = length ws)) [1..<Suc k],
      timeouts = k, ended = False, client_connected = c\<rparr>"

section \<open>Session store (server)\<close>

datatype role = User | Model

text \<open>A history element \<^verbatim>\<open>{role, parts: [{text}]}\<close>.\<close>

type_synonym chat_msg = "role \<times> string"

text \<open>Dates are milliseconds since the epoch, as \<^verbatim>\<open>now - session.lastActivity\<close> reads them.\<close>

record session =
  session_id :: string
  chatHistory :: "chat_msg list"
  createdAt :: int
  lastActivity :: int

text \<open>
  \<^verbatim>\<open>const sessions = new Map()\<close>: the entries in insertion order, one per key.
  \<^verbatim>\<open>has\<close>/\<^verbatim>\<open>get\<close> are \<open>map_of\<close>, \<^verbatim>\<open>set\<close> is \<open>AList.update\<close> (an existing key
  keeps its place, a new one goes last) and \<^verbatim>\<open>delete\<close> is \<open>AList.delete\<close>.
\<close>

type_synonym sessions = "(string \<times> session) list"

text \<open>
  \<open>t_created\<close>, \<open>t_first\<close> and \<open>t_touch\<close> are the readings of the three \<^verbatim>\<open>new Date()\<close>
  calls, in program order; only the last one is made when the session exists. The result is the
  session returned (the object stored under \<open>sessionId\<close>) and the store.
\<close>

definition getOrCreateSession ::
  "string \<Rightarrow> int \<Rightarrow> int \<Rightarrow> int \<Rightarrow> sessions \<Rightarrow> session \<times> sessions" where
  "getOrCreateSession sessionId t_created t_first t_touch store =
     (let store1 =
            (if map_of store sessionId = None
             then AList.update sessionId
                    \<lparr>session_id = sessionId, chatHistory = [], createdAt = t_created,
                     lastActivity = t_first\<rparr> store
             else store)
      in case map_of store1 sessionId of
           Some s \<Rightarrow>
             (let s' = s\<lparr>lastActivity := t_touch\<rparr> in (s', AList.update sessionId s' store1))
         | None \<Rightarrow>
             (\<lparr>session_id = sessionId, chatHistory = [], createdAt = t_created,
               lastActivity = t_touch\<rparr>, store1))"

text \<open>\<^verbatim>\<open>session.chatHistory.push(m)\<close> on the session stored under \<open>sessionId\<close>.\<close>

definition push_history :: "string \<Rightarrow> chat_msg \<Rightarrow> sessions \<Rightarrow> sessions" where
  "push_history sessionId m store =
     (case map_of store sessionId of
        Some s \<Rightarrow> AList.update sessionId (s\<lparr>chatHistory := chatHistory s @ [m]\<rparr>) store
      | None \<Rightarrow> store)"

definition timeout :: int where
  "timeout = 30 * 60 * 1000"

text \<open>
  The sweep that \<^verbatim>\<open>setInterval\<close> runs every five minutes:
  \<^verbatim>\<open>for (const [id, session] of sessions.entries()) if (now - session.lastActivity > timeout) sessions.delete(id)\<close>.
  The first argument is the list of entries still to visit.
\<close>

fun sweep_entries :: "(string \<times> session) list \<Rightarrow> int \<Rightarrow> sessions \<Rightarrow> sessions" where
  "sweep_entries [] now store = store"
| "sweep_entries ((sid, s) # rest) now store =
     (if now - lastActivity s > timeout
      then sweep_entries rest now (AList.delete sid store)
      else sweep_entries rest now store)"

definition sweep :: "int \<Rightarrow> sessions \<Rightarrow> sessions" where
  "sweep now store = sweep_entries store now store"

text \<open>The store as a \<^verbatim>\<open>Map\<close> has it: each key once.\<close>

definition store_ok :: "sessions \<Rightarrow> bool" where
  "store_ok store = distinct (map fst store)"

section \<open>Generation (server, \<^verbatim>\<open>generateGeminiResponse\<close>)\<close>

text \<open>
  The \<^verbatim>\<open>config\<close> object of a request. An absent field is \<open>None\<close>; \<open>ragEnabled\<close> is the
  truthiness of the field.
\<close>

record chat_config =
  model :: "string option"
  maxTokens :: "int option"
  temperature :: "real option"
  ragEnabled :: bool

text \<open>The default parameter value \<^verbatim>\<open>config = {}\<close>.\<close>

definition empty_config :: chat_config where
  "empty_config = \<lparr>model = None, maxTokens = None, temperature = None, ragEnabled = False\<rparr>"

text \<open>
  \<^verbatim>\<open>x || d\<close> on an optional number: \<^verbatim>\<open>undefined\<close> and \<^verbatim>\<open>0\<close> are falsy, every other
  number is truthy.
\<close>

definition or_default :: "'a::zero option \<Rightarrow> 'a \<Rightarrow> 'a" where
  "or_default x d = (case x of None \<Rightarrow> d | Some v \<Rightarrow> if v = 0 then d else v)"

record generation_config =
  maxOutputTokens :: int
  gen_temperature :: real
  topP :: real
  topK :: int

definition generationConfig :: "chat_config \<Rightarrow> generation_config" where
  "generationConfig config =
     \<lparr>maxOutputTokens = or_default (maxTokens config) 2048,
      gen_temperature = or_default (temperature config) 0.7,
      topP = 0.95,
      topK = 40\<rparr>"

definition systemPrompt :: string where
  "systemPrompt =
     ''You are the Sayonara AI Assistant, an expert in secure data '' @
     ''wiping, \<newline>'' @
     ''        IT asset recycling, and blockchain verification. You '' @
     ''help users understand and use the \<newline>'' @
     ''        Sayonara platform which provides NIST 800-88 compliant '' @
     ''data sanitization with blockchain \<newline>'' @
     ''        certificates. Always be helpful, technical when needed, '' @
     ''and emphasize security and compliance.''"


definition rag_prompt_head :: string where
  "rag_prompt_head =
     ''\<newline>'' @
     ''Question: ''"


definition rag_prompt_mid :: string where
  "rag_prompt_mid =
     ''\<newline>'' @
     ''\<newline>'' @
     ''Relevant Knowledge Base Information:\<newline>''"


definition rag_prompt_tail :: string where
  "rag_prompt_tail =
     ''\<newline>'' @
     ''\<newline>'' @
     ''Please provide a comprehensive answer using the above information '' @
     ''and your knowledge about the Sayonara data wiping platform.\<newline>'' @
     ''                ''"


text \<open>\<^verbatim>\<open>ragResults.map(r => `${r.topic}: ${r.content}`).join('\n\n')\<close>\<close>

fun join_results :: "retrieval list \<Rightarrow> string" where
  "join_results [] = []"
| "join_results [r] = topic r @ '': '' @ content r"
| "join_results (r # r' # rs) =
     topic r @ '': '' @ content r @ ''\<newline>\<newline>'' @ join_results (r' # rs)"

definition enhancedPrompt :: "string \<Rightarrow> chat_config \<Rightarrow> string" where
  "enhancedPrompt message config =
     (if ragEnabled config
      then (let ragResults = searchKnowledgeBase message in
            if length ragResults > 0
            then rag_prompt_head @ message @ rag_prompt_mid @ join_results ragResults
                 @ rag_prompt_tail
            else message)
      else message)"

text \<open>
  The remote model API. One call is \<^verbatim>\<open>model.startChat({history, generationConfig}).sendMessage(prompt)\<close>
  on the client built with \<open>apiKey\<close>; it yields the response text or throws.
  A thrown value carries \<^verbatim>\<open>error.message\<close>, which may be absent. \<open>history\<close> is the content
  of the array at the time of the call; the handler passes \<^verbatim>\<open>session.chatHistory\<close> itself, and
  what the client library does with that array is not part of this model.
\<close>

datatype js_error = JsError (err_message: "string option")

record api_request =
  apiKey :: string
  modelName :: string
  history :: "chat_msg list"
  generation :: generation_config
  prompt :: string

type_synonym model_api = "api_request \<Rightarrow> js_error + string"

definition api_key_fallback :: string where
  "api_key_fallback =
     ''I'm currently unable to connect to the Gemini AI service. Please '' @
     ''ensure your API key is configured correctly in the .env file. '' @
     ''\<newline>'' @
     ''\<newline>'' @
     ''For now, I can tell you about the Sayonara platform: We provide '' @
     ''military-grade data wiping with blockchain verification, ensuring '' @
     ''your data is completely and verifiably erased before device '' @
     ''recycling or resale.''"


text \<open>\<^verbatim>\<open>error.message?.includes('API key')\<close>: an absent message is not a match.\<close>

definition api_key_error :: "js_error \<Rightarrow> bool" where
  "api_key_error error =
     (case err_message error of None \<Rightarrow> False | Some m \<Rightarrow> str_includes m ''API key'')"

text \<open>
  The result is what the function returns (\<open>Inr\<close>) or throws (\<open>Inl\<close>), with the remote calls it
  made. The \<^verbatim>\<open>catch\<close> block returns the fallback text only for an error whose message
  contains \<^verbatim>\<open>'API key'\<close>, and rethrows every other error.
\<close>

definition generateGeminiResponse ::
  "model_api \<Rightarrow> string \<Rightarrow> string \<Rightarrow> chat_msg list \<Rightarrow> chat_config
     \<Rightarrow> (js_error + string) \<times> api_request list" where
  "generateGeminiResponse remote key message chatHistory' config =
     (let request =
            \<lparr>apiKey = key, modelName = ''gemini-2.5-flash'', history = chatHistory',
             generation = generationConfig config,
             prompt = systemPrompt @ ''\<newline>\<newline>'' @ enhancedPrompt message config\<rparr>
      in case remote request of
           Inr text \<Rightarrow> (Inr text, [request])
         | Inl error \<Rightarrow>
             (if api_key_error error
              then (Inr api_key_fallback, [request])
              else (Inl error, [request])))"

section \<open>Process start\<close>

text \<open>
  What the top-level code of a server does with \<^verbatim>\<open>process.env.GEMINI_API_KEY\<close> (\<open>None\<close> when
  the variable is not set): the process exits with a code, or goes on to listen with a model
  client built with the given key. The second component is the console output.
\<close>

datatype process = Exited int | Listening string

text \<open>\<^verbatim>\<open>src/server.js\<close>: a missing, empty or placeholder key is fatal.\<close>

definition server_js_start :: "string option \<Rightarrow> process \<times> string list" where
  "server_js_start env_key =
     (case env_key of
        None \<Rightarrow>
          (Exited 1, [''FATAL ERROR: GEMINI_API_KEY not set correctly in .env file.''])
      | Some k \<Rightarrow>
          if k = [] \<or> k = ''YOUR_GEMINI_API_KEY_HERE''
          then (Exited 1, [''FATAL ERROR: GEMINI_API_KEY not set correctly in .env file.''])
          else (Listening k, []))"

text \<open>
  The chatbot backend server: a missing or empty key is reported with two warnings, and the
  client is built with \<^verbatim>\<open>GEMINI_API_KEY || 'demo-key'\<close>.
\<close>

definition backend_start :: "string option \<Rightarrow> process \<times> string list" where
  "backend_start env_key =
     (case env_key of
        None \<Rightarrow>
          (Listening ''demo-key'',
           [[CHR 0xE2, CHR 0x9A, CHR 0xA0, CHR 0xEF, CHR 0xB8, CHR 0x8F] @
        ''  WARNING: GEMINI_API_KEY not found in environment variables!'',
            ''Please create a .env file with: GEMINI_API_KEY=your_api_key_here''])
      | Some k \<Rightarrow>
          if k = []
          then (Listening ''demo-key'',
                [[CHR 0xE2, CHR 0x9A, CHR 0xA0, CHR 0xEF, CHR 0xB8, CHR 0x8F] @
        ''  WARNING: GEMINI_API_KEY not found in environment variables!'',
                 ''Please create a .env file with: GEMINI_API_KEY=your_api_key_here''])
          else (Listening k, []))"

section \<open>\<^verbatim>\<open>POST /api/chat\<close>\<close>

text \<open>
  A response is a status and a JSON body: \<^verbatim>\<open>{text}\<close>, \<^verbatim>\<open>{error}\<close> or
  \<^verbatim>\<open>{error, message}\<close>, or the chat reply, whose fields \<^verbatim>\<open>text\<close>, \<^verbatim>\<open>content\<close> and
  \<^verbatim>\<open>response\<close> all carry \<open>reply_text\<close> and whose \<^verbatim>\<open>done\<close> is \<^verbatim>\<open>true\<close>.
\<close>

datatype body =
    Text_body string
  | Error_body string "string option"
  | Chat_body (messageId: int) (reply_text: string) (meta_model: string)
      (meta_sessionId: string) (meta_timestamp: int)

record http_response =
  status :: nat
  body :: body

subsection \<open>\<^verbatim>\<open>src/server.js\<close>\<close>

definition PROJECT_CONTEXT :: string where
  "PROJECT_CONTEXT =
     ''\<newline>'' @
     ''You are an expert AI assistant for '' @
     [CHR 0x22] @
     ''Project Sayonara,'' @
     [CHR 0x22] @
     '' a secure data wiping solution presented for SIH 2025. \<newline>'' @
     ''Your responses must be based *only* on the provided context '' @
     ''below. Do not use external knowledge. \<newline>'' @
     ''If the answer is not available in the context, state clearly, '' @
     [CHR 0x22] @
     ''I am unable to find that specific detail in the project documentation.'' @
     [CHR 0x22] @
     ''\<newline>'' @
     ''\<newline>'' @
     ''--- PROJECT SAYONARA CONTEXT ---\<newline>'' @
     ''\<newline>'' @
     ''**Slide 2 - Idea / Solution / Problem Resolution / UVP**\<newline>'' @
     ''* **Problem:** No proof of erasure (buyers & auditors don'' @
     [CHR 0xE2, CHR 0x80, CHR 0x99] @
     ''t trust); Wipes are complex & error-prone (risk of bricking); '' @
     ''Wrong methods leave recoverable data (esp. SSD/NVMe); Too many '' @
     ''fragmented tools; '' @
     [CHR 0xE2, CHR 0x80, CHR 0x9C] @
     ''Did it really wipe?'' @
     [CHR 0xE2, CHR 0x80, CHR 0x9D] @
     '' doubt remains; SMEs struggle to show CSR/environmental responsibility; '' @
     ''Resale often undervalued due to lack of proof.\<newline>'' @
     ''* **Function:** Wipe Engine = f(Device, Storage, Policy); Auto-selects '' @
     ''the right sanitization method (HDD/SSD/NVMe/Android); Combines '' @
     ''secure erase + recovery validation + health scan; Produces signed '' @
     ''certificate + dashboard view.\<newline>'' @
     ''* **Solution:** Tamper-proof proof (Blockchain-anchored certificates '' @
     ''+ real-time logs); Correct erasure (Dual-phase sanitization: '' @
     ''crypto-erase + firmware sanitize); Proof loop (Built-in forensic '' @
     ''recovery test, auto re-wipe if needed); Unified tool (Works '' @
     ''across Windows, Linux, Android, HDD/SSD/NVMe, via USB/App); '' @
     ''Resale & CSR (Health-based resale valuation, SME dashboard for '' @
     ''ESG metrics).\<newline>'' @
     ''* **UVPs (Unique Value Propositions):** Tamper-proof trust (blockchain '' @
     ''certificates + signed logs); Media-correct sanitization (device-aware '' @
     ''erasure engine); Proof loop (recovery validation post-wipe); '' @
     ''Simple UX (guided steps + one-click mode + AI assistance); CSR '' @
     ''advantage for SMEs (dashboard showing CO'' @
     [CHR 0xE2, CHR 0x82, CHR 0x82] @
     '' saved, landfill reduction, devices recycled); Resale value '' @
     ''protection (AI estimator tied to health data).\<newline>'' @
     ''\<newline>'' @
     ''**Slide 3 - Technical Approach**\<newline>'' @
     ''* **Content Technologies Used:** Core Engine: Rust, Alpine Linux '' @
     ''ISO/USB, Axum. Frontends: React (UI), Tauri (Windows/Linux), '' @
     ''React Native (Android), Next.js + Supabase (Dashboards). Blockchain: '' @
     ''Ethereum Sepolia, Solidity, Ethers.js, Anchoring Gateway. AI: '' @
     ''Gemini + LangChain (context-aware operator chatbot). Security: '' @
     ''HSM/Vault, TLS 1.3, JSON/PDF certs with QR. Monitoring: Prometheus '' @
     ''+ Grafana, ELK/OpenSearch logs.\<newline>'' @
     ''* **Methodology / Process:** Intake '' @
     [CHR 0xE2, CHR 0x86, CHR 0x92] @
     '' Erasure (crypto-erase + sanitize) '' @
     [CHR 0xE2, CHR 0x86, CHR 0x92] @
     '' Recovery validation '' @
     [CHR 0xE2, CHR 0x86, CHR 0x92] @
     '' Health check '' @
     [CHR 0xE2, CHR 0x86, CHR 0x92] @
     '' Certificate generation '' @
     [CHR 0xE2, CHR 0x86, CHR 0x92] @
     '' Anchoring '' @
     [CHR 0xE2, CHR 0x86, CHR 0x92] @
     '' Dashboards. Works in both offline-first mode (USB, air-gapped) '' @
     ''and partial online mode (cloud anchoring + SME CSR dashboard).\<newline>'' @
     ''\<newline>'' @
     ''**Slide 4 - Feasibility & Viability**\<newline>'' @
     ''* **Feasibility (Technical):** Uses industry-standard methods '' @
     ''(NIST 800-88, IEEE 2883). Core engine in Rust ensures safety '' @
     ''& performance. Operational: Works offline (suitable for air-gapped '' @
     ''enterprises). USB boot ISO ensures OS-independent wipes. Market: '' @
     ''Growing e-waste regulations (India DPDP Act, GDPR, WEEE Directive) '' @
     [CHR 0xE2, CHR 0x86, CHR 0x92] @
     '' strong demand.\<newline>'' @
     ''* **Potential Challenges:** Hardware diversity (SSD vendor lock-ins), '' @
     ''Android bootloader restrictions, User adoption (SMEs may resist '' @
     ''adopting new workflows), Blockchain reliance (needs fallback '' @
     ''for offline mode).\<newline>'' @
     ''* **Strategies:** Vendor tool integration (NVMe CLI, PSID Revert, '' @
     ''Android FBE key shred). AI guidance & one-click UX to reduce '' @
     ''adoption friction. Offline-first design (certificates signed '' @
     ''locally, blockchain anchoring deferred). CSR dashboard as a '' @
     ''motivator (aligns with SME compliance & ESG goals).\<newline>'' @
     ''\<newline>'' @
     ''**Slide 5 - Impact & Benefits**\<newline>'' @
     ''* **Potential Impact (Users):** Peace of mind that data is irrecoverably '' @
     ''erased. SMEs: CSR dashboard quantifies recycling & ESG impact. '' @
     ''Auditors: tamper-proof blockchain-anchored proof of compliance. '' @
     ''Environment: e-waste reduced, CO'' @
     [CHR 0xE2, CHR 0x82, CHR 0x82] @
     '' and landfill waste minimized.\<newline>'' @
     ''* **Benefits (Social):** Builds digital trust, educates users '' @
     ''about real erasure. Economic: Resale value protection, SMEs '' @
     ''gain stronger negotiating power. Environmental: Measurable ESG '' @
     ''impact (X devices recycled, Y kg CO'' @
     [CHR 0xE2, CHR 0x82, CHR 0x82] @
     '' saved).\<newline>'' @
     ''\<newline>'' @
     ''--- END CONTEXT ---\<newline>''"


text \<open>
  One call \<^verbatim>\<open>ai.models.generateContent({model, contents, config: {systemInstruction}})\<close>;
  it yields \<^verbatim>\<open>response.text\<close>, which may be absent, or throws.
\<close>

record sdk_request =
  sdk_model :: string
  contents :: "chat_msg list"
  systemInstruction :: string

type_synonym sdk_api = "sdk_request \<Rightarrow> js_error + string option"

text \<open>
  The argument is the \<^verbatim>\<open>chatHistory\<close> field of the request body, \<open>None\<close> when absent.
  The result is the response and the remote calls made.
\<close>

definition server_js_post_chat ::
  "sdk_api \<Rightarrow> chat_msg list option \<Rightarrow> http_response \<times> sdk_request list" where
  "server_js_post_chat remote chatHistory' =
     (case chatHistory' of
        None \<Rightarrow> (\<lparr>status = 400, body = Error_body ''contents are required'' None\<rparr>, [])
      | Some h \<Rightarrow>
          if length h = 0
          then (\<lparr>status = 400, body = Error_body ''contents are required'' None\<rparr>, [])
          else
            (let request = \<lparr>sdk_model = ''gemini-2.5-flash'', contents = h,
                            systemInstruction = PROJECT_CONTEXT\<rparr>
             in case remote request of
                  Inr t \<Rightarrow>
                    (\<lparr>status = 200,
                      body = Text_body
                        (case t of
                           None \<Rightarrow> ''I was unable to generate a response.''
                         | Some x \<Rightarrow>
                             if x = [] then ''I was unable to generate a response.'' else x)\<rparr>,
                     [request])
                | Inl error \<Rightarrow>
                    (\<lparr>status = 500,
                      body = Error_body ''Failed to communicate with the Gemini API.'' None\<rparr>,
                     [request])))"

subsection \<open>The chatbot backend server\<close>

text \<open>
  The request body \<^verbatim>\<open>{message, chatHistory, conversationId, config}\<close> with fields of the
  expected types: \<^verbatim>\<open>message\<close> a string, \<^verbatim>\<open>chatHistory\<close> an array of messages,
  \<^verbatim>\<open>config\<close> an object; an absent field is \<open>None\<close>. Bodies with other JSON values in
  these fields are treated further below.
\<close>

record chat_request =
  req_message :: "string option"
  req_chatHistory :: "chat_msg list option"
  req_conversationId :: "string option"
  req_config :: "chat_config option"

text \<open>The readings of the clock that the handler takes, in program order.\<close>

record clock =
  t_created :: int
  t_first :: int
  t_touch :: int
  t_messageId :: int
  t_timestamp :: int

text \<open>
  The handler's first use of \<^verbatim>\<open>message\<close> is \<^verbatim>\<open>message.substring(0, 50)\<close> in its log
  line, which throws a \<^verbatim>\<open>TypeError\<close> when the field is absent.
\<close>

definition substring_of_undefined :: js_error where
  "substring_of_undefined =
     JsError (Some (''Cannot read properties of undefined (reading '' @ [CHR 0x27] @ ''substring''
                    @ [CHR 0x27] @ '')''))"

text \<open>
  \<open>x_session_id\<close> is the request header. The result is the response, the session store and
  the remote calls made. The whole handler body is in a \<^verbatim>\<open>try\<close> whose \<^verbatim>\<open>catch\<close> answers
  500 with \<^verbatim>\<open>error.message\<close>.
\<close>

definition post_api_chat ::
  "model_api \<Rightarrow> string \<Rightarrow> clock \<Rightarrow> string option \<Rightarrow> chat_request \<Rightarrow> sessions
     \<Rightarrow> http_response \<times> sessions \<times> api_request list" where
  "post_api_chat remote key clk x_session_id req store =
     (let sessionId = (case x_session_id of None \<Rightarrow> ''default''
                       | Some h \<Rightarrow> if h = [] then ''default'' else h)
      in case req_message req of
           None \<Rightarrow>
             (\<lparr>status = 500,
               body = Error_body ''Failed to generate response''
                        (err_message substring_of_undefined)\<rparr>,
              store, [])
         | Some message \<Rightarrow>
             (let (session, store1) =
                    getOrCreateSession sessionId (t_created clk) (t_first clk) (t_touch clk) store;
                  store2 = push_history sessionId (User, message) store1;
                  history' = (case req_chatHistory req of
                                Some h \<Rightarrow> h
                              | None \<Rightarrow> chatHistory session @ [(User, message)]);
                  config = (case req_config req of None \<Rightarrow> empty_config | Some c \<Rightarrow> c)
              in case generateGeminiResponse remote key message history' config of
                   (Inr responseText, calls) \<Rightarrow>
                     (\<lparr>status = 200,
                       body = Chat_body (t_messageId clk) responseText
                                (case model config of
                                   None \<Rightarrow> ''gemini-pro''
                                 | Some m \<Rightarrow> if m = [] then ''gemini-pro'' else m)
                                sessionId (t_timestamp clk)\<rparr>,
                      push_history sessionId (Model, responseText) store2, calls)
                 | (Inl error, calls) \<Rightarrow>
                     (\<lparr>status = 500,
                       body = Error_body ''Failed to generate response'' (err_message error)\<rparr>,
                      store2, calls)))"

subsection \<open>The chatbot backend server on arbitrary JSON bodies\<close>

text \<open>
  A field of the parsed body where the handler expects a value of type \<open>'a\<close>: absent
  (\<^verbatim>\<open>undefined\<close>), \<^verbatim>\<open>null\<close>, a value of that type, or a JSON value of another type.
\<close>

datatype 'a json_field = Absent | Null | Value 'a | Other

text \<open>
  \<open>raw_chatHistory\<close> is \<open>None\<close> for an absent or falsy field (\<^verbatim>\<open>chatHistory || ...\<close> then
  takes the session's history) and \<open>Some\<close> for an array of messages.
\<close>

record raw_request =
  raw_message :: "string json_field"
  raw_chatHistory :: "chat_msg list option"
  raw_conversationId :: "string option"
  raw_config :: "chat_config json_field"

text \<open>
  \<^verbatim>\<open>message.substring(0, 50)\<close> on a value that is not a string: reading a property of
  \<^verbatim>\<open>undefined\<close> or \<^verbatim>\<open>null\<close> throws, and on a number, boolean, array or object
  \<^verbatim>\<open>substring\<close> is not a function. (A string raises nothing; \<open>substring_error\<close> is only
  used on the other values.)
\<close>

definition substring_of_null :: js_error where
  "substring_of_null =
     JsError (Some (''Cannot read properties of null (reading '' @ [CHR 0x27] @ ''substring''
                    @ [CHR 0x27] @ '')''))"

definition substring_not_a_function :: js_error where
  "substring_not_a_function = JsError (Some ''message.substring is not a function'')"

definition substring_error :: "string json_field \<Rightarrow> js_error" where
  "substring_error m =
     (case m of
        Absent \<Rightarrow> substring_of_undefined
      | Null \<Rightarrow> substring_of_null
      | Value x \<Rightarrow> substring_not_a_function
      | Other \<Rightarrow> substring_not_a_function)"

text \<open>\<^verbatim>\<open>config.ragEnabled\<close> when \<^verbatim>\<open>config\<close> is \<^verbatim>\<open>null\<close>.\<close>

definition ragEnabled_of_null :: js_error where
  "ragEnabled_of_null =
     JsError (Some (''Cannot read properties of null (reading '' @ [CHR 0x27] @ ''ragEnabled''
                    @ [CHR 0x27] @ '')''))"

text \<open>
  A call \<^verbatim>\<open>generateGeminiResponse(message, chatHistory, config)\<close> with any \<^verbatim>\<open>config\<close>.
  The default \<^verbatim>\<open>config = {}\<close> replaces \<^verbatim>\<open>undefined\<close> only. With \<^verbatim>\<open>null\<close> the first
  statement that reads \<^verbatim>\<open>config.ragEnabled\<close> throws inside the \<^verbatim>\<open>try\<close>, before any
  remote call, and the \<^verbatim>\<open>catch\<close> block treats that error as any other. A value that is
  neither an object nor \<^verbatim>\<open>null\<close> has none of the fields read.
\<close>

definition generateGeminiResponse_call ::
  "model_api \<Rightarrow> string \<Rightarrow> string \<Rightarrow> chat_msg list \<Rightarrow> chat_config json_field
     \<Rightarrow> (js_error + string) \<times> api_request list" where
  "generateGeminiResponse_call remote key message chatHistory' config =
     (case config of
        Absent \<Rightarrow> generateGeminiResponse remote key message chatHistory' empty_config
      | Null \<Rightarrow>
          (if api_key_error ragEnabled_of_null then (Inr api_key_fallback, [])
           else (Inl ragEnabled_of_null, []))
      | Value c \<Rightarrow> generateGeminiResponse remote key message chatHistory' c
      | Other \<Rightarrow> generateGeminiResponse remote key message chatHistory' empty_config)"

text \<open>\<^verbatim>\<open>config?.model || 'gemini-pro'\<close>.\<close>

definition metadata_model :: "chat_config json_field \<Rightarrow> string" where
  "metadata_model config =
     (case config of
        Value c \<Rightarrow> (case model c of
                      None \<Rightarrow> ''gemini-pro''
                    | Some m \<Rightarrow> if m = [] then ''gemini-pro'' else m)
      | Absent \<Rightarrow> ''gemini-pro''
      | Null \<Rightarrow> ''gemini-pro''
      | Other \<Rightarrow> ''gemini-pro'')"

text \<open>
  The handler on any body, statement by statement: the log line, the session, the push of the
  user message, generation, and the reply or the \<^verbatim>\<open>catch\<close> block.
\<close>

definition post_api_chat_raw ::
  "model_api \<Rightarrow> string \<Rightarrow> clock \<Rightarrow> string option \<Rightarrow> raw_request \<Rightarrow> sessions
     \<Rightarrow> http_response \<times> sessions \<times> api_request list" where
  "post_api_chat_raw remote key clk x_session_id raw store =
     (let sessionId = (case x_session_id of None \<Rightarrow> ''default''
                       | Some h \<Rightarrow> if h = [] then ''default'' else h)
      in case raw_message raw of
           Value message \<Rightarrow>
             (let (session, store1) =
                    getOrCreateSession sessionId (t_created clk) (t_first clk) (t_touch clk) store;
                  store2 = push_history sessionId (User, message) store1;
                  history' = (case raw_chatHistory raw of
                                Some h \<Rightarrow> h
                              | None \<Rightarrow> chatHistory session @ [(User, message)])
              in case generateGeminiResponse_call remote key message history' (raw_config raw) of
                   (Inr responseText, calls) \<Rightarrow>
                     (\<lparr>status = 200,
                       body = Chat_body (t_messageId clk) responseText
                                (metadata_model (raw_config raw)) sessionId (t_timestamp clk)\<rparr>,
                      push_history sessionId (Model, responseText) store2, calls)
                 | (Inl error, calls) \<Rightarrow>
                     (\<lparr>status = 500,
                       body = Error_body ''Failed to generate response'' (err_message error)\<rparr>,
                      store2, calls))
         | Absent \<Rightarrow>
             (\<lparr>status = 500,
               body = Error_body ''Failed to generate response''
                        (err_message (substring_error Absent))\<rparr>, store, [])
         | Null \<Rightarrow>
             (\<lparr>status = 500,
               body = Error_body ''Failed to generate response''
                        (err_message (substring_error Null))\<rparr>, store, [])
         | Other \<Rightarrow>
             (\<lparr>status = 500,
               body = Error_body ''Failed to generate response''
                        (err_message (substring_error Other))\<rparr>, store, []))"

text \<open>The typed request that a body with a string message and a config other than \<^verbatim>\<open>null\<close> is.\<close>

definition typed_request :: "string \<Rightarrow> raw_request \<Rightarrow> chat_request" where
  "typed_request message raw =
     \<lparr>req_message = Some message, req_chatHistory = raw_chatHistory raw,
      req_conversationId = raw_conversationId raw,
      req_config = (case raw_config raw of
                      Value c \<Rightarrow> Some c
                    | Absent \<Rightarrow> None
                    | Null \<Rightarrow> None
                    | Other \<Rightarrow> Some empty_config)\<rparr>"

section \<open>\<^verbatim>\<open>GET /api/chat/stream\<close>\<close>

text \<open>
  The connection after the handler has run to its end: the frames of the word loop, or, when
  generation throws, the single frame \<^verbatim>\<open>{error: error.message, done: true}\<close>.
\<close>

datatype stream_result = Streamed sse_stream | Stream_error "string option"

definition get_api_chat_stream ::
  "model_api \<Rightarrow> string \<Rightarrow> clock \<Rightarrow> string \<Rightarrow> string option \<Rightarrow> sessions
     \<Rightarrow> stream_result \<times> sessions \<times> api_request list" where
  "get_api_chat_stream remote key clk message sessionId' store =
     (let sessionId = (case sessionId' of None \<Rightarrow> ''default'' | Some x \<Rightarrow> x);
          (session, store1) =
             getOrCreateSession sessionId (t_created clk) (t_first clk) (t_touch clk) store
      in case generateGeminiResponse remote key message (chatHistory session) empty_config of
           (Inr responseText, calls) \<Rightarrow> (Streamed (sse_loop (sse_start responseText)), store1, calls)
         | (Inl error, calls) \<Rightarrow> (Stream_error (err_message error), store1, calls))"

section \<open>A request to a process started with a given environment\<close>

text \<open>
  A process that has exited serves nothing (\<open>None\<close>); a listening one handles the request with
  the model client built at start.
\<close>

definition server_js_serve ::
  "string option \<Rightarrow> sdk_api \<Rightarrow> chat_msg list option
     \<Rightarrow> (http_response \<times> sdk_request list) option" where
  "server_js_serve env_key remote chatHistory' =
     (case fst (server_js_start env_key) of
        Exited code \<Rightarrow> None
      | Listening key \<Rightarrow> Some (server_js_post_chat remote chatHistory'))"

definition backend_serve ::
  "string option \<Rightarrow> model_api \<Rightarrow> clock \<Rightarrow> string option \<Rightarrow> raw_request \<Rightarrow> sessions
     \<Rightarrow> (http_response \<times> sessions \<times> api_request list) option" where
  "backend_serve env_key remote clk x_session_id raw store =
     (case fst (backend_start env_key) of
        Exited code \<Rightarrow> None
      | Listening key \<Rightarrow> Some (post_api_chat_raw remote key clk x_session_id raw store))"

section \<open>Example inputs\<close>

text \<open>A store with two sessions, last touched at 0 ms and at 1000000 ms.\<close>

definition two_sessions :: sessions where
  "two_sessions =
     [(''a'', \<lparr>session_id = ''a'', chatHistory = [], createdAt = 0, lastActivity = 0\<rparr>),
      (''b'', \<lparr>session_id = ''b'', chatHistory = [(User, ''hi'')], createdAt = 5,
              lastActivity = 1000000\<rparr>)]"

text \<open>Clock readings and a typed request with only a message.\<close>

definition clock0 :: clock where
  "clock0 = \<lparr>t_created = 10, t_first = 11, t_touch = 12, t_messageId = 13, t_timestamp = 14\<rparr>"

definition request_hi :: chat_request where
  "request_hi =
     \<lparr>req_message = Some ''hi'', req_chatHistory = None, req_conversationId = None,
      req_config = None\<rparr>"

text \<open>
  The bodies \<^verbatim>\<open>{"message": "hi"}\<close>, \<^verbatim>\<open>{}\<close>, \<^verbatim>\<open>{"message": 5}\<close> and
  \<^verbatim>\<open>{"message": "hi", "config": null}\<close>.
\<close>

definition body_hi :: raw_request where
  "body_hi =
     \<lparr>raw_message = Value ''hi'', raw_chatHistory = None, raw_conversationId = None,
      raw_config = Absent\<rparr>"

definition body_empty :: raw_request where
  "body_empty =
     \<lparr>raw_message = Absent, raw_chatHistory = None, raw_conversationId = None,
      raw_config = Absent\<rparr>"

definition body_number :: raw_request where
  "body_number =
     \<lparr>raw_message = Other, raw_chatHistory = None, raw_conversationId = None,
      raw_config = Absent\<rparr>"

definition body_null_config :: raw_request where
  "body_null_config =
     \<lparr>raw_message = Value ''hi'', raw_chatHistory = None, raw_conversationId = None,
      raw_config = Null\<rparr>"

text \<open>A remote API that answers, one that fails with a network error, one with a key error.\<close>

definition remote_ok :: model_api where
  "remote_ok rq = Inr ''ok''"

definition remote_down :: model_api where
  "remote_down rq = Inl (JsError (Some ''fetch failed''))"

definition remote_bad_key :: model_api where
  "remote_bad_key rq = Inl (JsError (Some ''API key not valid. Please pass a valid API key.''))"

section \<open>Properties of the string primitives\<close>

lemma starts_with_prefix: "starts_with s sub = prefix sub s"
  by (induction s sub rule: starts_with.induct) auto

lemma str_includes_sublist: "str_includes s sub = sublist sub s"
  by (induction s) (auto simp: sublist_Cons_right starts_with_prefix)

lemma lower_char_alphabet:
  "map lower_char ''ABCDEFGHIJKLMNOPQRSTUVWXYZ'' = ''abcdefghijklmnopqrstuvwxyz''"
  by simp

lemma lower_char_code:
  "(of_char (lower_char c) :: nat) =
     (if 65 \<le> (of_char c :: nat) \<and> (of_char c :: nat) \<le> 90 then of_char c + 32
      else of_char c)"
  by (cases c) (auto simp: of_char_Char)

section \<open>Properties of the knowledge-base search\<close>

lemma count_matches_foldl:
  "foldl (\<lambda>score keyword. score + (if P keyword then 1 else 0)) (a::nat) kws
     = a + length (filter P kws)"
  by (induction kws arbitrary: a) auto

lemma relevanceScore_count:
  "relevanceScore ql kws = length (filter (\<lambda>kw. str_includes ql (toLowerCase kw)) kws)"
  unfolding relevanceScore_def by (simp add: count_matches_foldl)

lemma scan_entries_filter:
  "scan_entries ql kb = map (entry_result ql) (filter (entry_matches ql) kb)"
  by (induction kb) (auto simp: entry_matches_def entry_result_def Let_def)

lemma topics_scan_subseq: "subseq (map topic (scan_entries ql kb)) (map fst kb)"
  by (induction kb) (auto simp: Let_def)

lemma sorted_desc_sort_by_relevance:
  "sorted_wrt (\<lambda>a b. relevance a \<ge> relevance b) (sort_by_relevance rs)"
proof -
  have "sorted (map (\<lambda>r. - int (relevance r)) (sort_by_relevance rs))"
    unfolding sort_by_relevance_def by (rule sorted_sort_key)
  then show ?thesis
    by (simp add: sorted_wrt_map)
qed

lemma sorted_wrt_take: "sorted_wrt R xs \<Longrightarrow> sorted_wrt R (take n xs)"
  by (metis append_take_drop_id sorted_wrt_append)

lemma filter_sort_by_relevance:
  "filter (\<lambda>r. relevance r = k) (sort_by_relevance rs) = filter (\<lambda>r. relevance r = k) rs"
proof -
  have "filter (\<lambda>r. - int (relevance r) = - int k) (sort_key (\<lambda>r. - int (relevance r)) rs)
        = filter (\<lambda>r. - int (relevance r) = - int k) rs"
    by (rule sort_key_stable)
  then show ?thesis by (simp add: sort_by_relevance_def)
qed

lemma subseq_filter_take: "subseq (filter P (take n xs)) (filter P xs)"
  by (metis append_take_drop_id filter_append subseq_rev_drop_many subseq_order.order_refl)

lemma search_in_unfold:
  "search_in kb query = take 3 (sort_by_relevance (scan_entries (toLowerCase query) kb))"
  by (simp add: search_in_def)

lemma searchKnowledgeBase_unfold:
  "searchKnowledgeBase query =
     take 3 (sort_by_relevance (scan_entries (toLowerCase query) knowledgeBase))"
  by (simp add: searchKnowledgeBase_def search_in_unfold)

lemmas search_eval =
  searchKnowledgeBase_unfold knowledgeBase_def toLowerCase_def relevanceScore_def
  sort_by_relevance_def

lemma search_in_length: "length (search_in kb q) \<le> 3"
  by (simp add: search_in_unfold)

lemma search_in_sorted: "sorted_wrt (\<lambda>a b. relevance a \<ge> relevance b) (search_in kb q)"
  by (simp add: search_in_unfold sorted_wrt_take sorted_desc_sort_by_relevance)

lemma search_in_stable:
  "subseq (map topic (filter (\<lambda>r. relevance r = k) (search_in kb q))) (map fst kb)"
proof -
  let ?ql = "toLowerCase q"
  let ?P = "\<lambda>r. relevance r = k"
  have "subseq (filter ?P (search_in kb q)) (filter ?P (sort_by_relevance (scan_entries ?ql kb)))"
    by (simp add: search_in_unfold subseq_filter_take)
  also have "filter ?P (sort_by_relevance (scan_entries ?ql kb)) = filter ?P (scan_entries ?ql kb)"
    by (rule filter_sort_by_relevance)
  finally have "subseq (filter ?P (search_in kb q)) (scan_entries ?ql kb)"
    by (rule subseq_order.trans) simp
  then have "subseq (map topic (filter ?P (search_in kb q))) (map topic (scan_entries ?ql kb))"
    by (rule subseq_map)
  then show ?thesis
    using topics_scan_subseq subseq_order.trans by blast
qed

lemma search_in_no_match:
  assumes "\<forall>(tp, data) \<in> set kb.
             \<not> str_includes (toLowerCase q) (toLowerCase tp)
             \<and> (\<forall>kw \<in> set (kb_keywords data). \<not> str_includes (toLowerCase q) (toLowerCase kw))"
  shows "search_in kb q = []"
proof -
  have "filter (entry_matches (toLowerCase q)) kb = []"
    using assms by (auto simp: filter_empty_conv entry_matches_def relevanceScore_count)
  then show ?thesis
    by (simp add: search_in_unfold scan_entries_filter sort_by_relevance_def)
qed

lemma search_in_member:
  assumes "r \<in> set (search_in kb q)"
  shows "\<exists>(tp, data) \<in> set kb.
           topic r = tp \<and> content r = kb_content data
           \<and> relevance r =
               length (filter (\<lambda>kw. str_includes (toLowerCase q) (toLowerCase kw))
                         (kb_keywords data))
               + (if str_includes (toLowerCase q) (toLowerCase tp) then 5 else 0)"
proof -
  from assms have "r \<in> set (sort_by_relevance (scan_entries (toLowerCase q) kb))"
    unfolding search_in_unfold by (rule in_set_takeD)
  then have "r \<in> set (scan_entries (toLowerCase q) kb)"
    by (simp add: sort_by_relevance_def)
  then obtain e where "e \<in> set kb" and "r = entry_result (toLowerCase q) e"
    by (auto simp: scan_entries_filter)
  then show ?thesis
    by (auto simp: entry_result_def relevanceScore_count intro!: bexI [of _ e] split: prod.splits)
qed

text \<open>
  C3. For every query, \<^verbatim>\<open>searchKnowledgeBase\<close> returns at most three results, in descending
  order of relevance; the results of any one score carry their topics in the order in which the
  knowledge base lists them; and when neither a keyword nor a topic name (lower-cased) occurs
  in the lower-cased query, the result is empty.
\<close>

theorem searchKnowledgeBase_top3_sorted_stable:
  "length (searchKnowledgeBase query) \<le> 3
   \<and> sorted_wrt (\<lambda>a b. relevance a \<ge> relevance b) (searchKnowledgeBase query)
   \<and> (\<forall>k. subseq (map topic (filter (\<lambda>r. relevance r = k) (searchKnowledgeBase query)))
                 (map fst knowledgeBase))
   \<and> ((\<forall>(tp, data) \<in> set knowledgeBase.
          \<not> str_includes (toLowerCase query) (toLowerCase tp)
          \<and> (\<forall>kw \<in> set (kb_keywords data).
                \<not> str_includes (toLowerCase query) (toLowerCase kw)))
        \<longrightarrow> searchKnowledgeBase query = [])"
  unfolding searchKnowledgeBase_def
  using search_in_length search_in_sorted search_in_stable search_in_no_match by blast

lemma no_match_hello:
  "\<forall>(tp, data) \<in> set knowledgeBase.
      \<not> str_includes (toLowerCase ''hello'') (toLowerCase tp)
      \<and> (\<forall>kw \<in> set (kb_keywords data).
            \<not> str_includes (toLowerCase ''hello'') (toLowerCase kw))"
  by (simp add: knowledgeBase_def toLowerCase_def)

theorem searchKnowledgeBase_top3_sorted_stable_witness:
  "\<not> (\<exists>(tp, data) \<in> set knowledgeBase.
         str_includes (toLowerCase ''hello'') (toLowerCase tp)
         \<or> (\<exists>kw \<in> set (kb_keywords data).
               str_includes (toLowerCase ''hello'') (toLowerCase kw)))
   \<and> searchKnowledgeBase ''hello'' = []"
proof -
  have "searchKnowledgeBase ''hello'' = []"
    using searchKnowledgeBase_top3_sorted_stable [of "''hello''"] no_match_hello by blast
  then show ?thesis
    using no_match_hello by fastforce
qed

lemma search_wiping_process:
  "searchKnowledgeBase ''Data Wiping Process'' =
     [\<lparr>topic = ''Data Wiping Process'', content = kb_content_4, relevance = 7\<rparr>]"
  by (simp add: search_eval)

text \<open>
  C9. Every result returned for a query comes from an entry of the knowledge base, and its
  relevance is the number of that entry's keywords that occur in the lower-cased query, plus
  exactly 5 when the lower-cased topic name occurs in it and plus nothing otherwise.
\<close>

theorem topic_match_adds_five:
  assumes "r \<in> set (searchKnowledgeBase query)"
  shows "\<exists>(tp, data) \<in> set knowledgeBase.
           topic r = tp \<and> content r = kb_content data
           \<and> relevance r =
               length (filter (\<lambda>kw. str_includes (toLowerCase query) (toLowerCase kw))
                         (kb_keywords data))
               + (if str_includes (toLowerCase query) (toLowerCase tp) then 5 else 0)"
  using assms unfolding searchKnowledgeBase_def by (rule search_in_member)

theorem topic_match_adds_five_witness:
  "\<lparr>topic = ''Data Wiping Process'', content = kb_content_4, relevance = 7\<rparr>
     \<in> set (searchKnowledgeBase ''Data Wiping Process'')
   \<and> (\<exists>(tp, data) \<in> set knowledgeBase.
         ''Data Wiping Process'' = tp \<and> kb_content_4 = kb_content data
         \<and> (7::nat) =
             length (filter (\<lambda>kw. str_includes (toLowerCase ''Data Wiping Process'')
                                    (toLowerCase kw)) (kb_keywords data))
             + (if str_includes (toLowerCase ''Data Wiping Process'') (toLowerCase tp)
                then 5 else 0))"
proof -
  have h: "\<lparr>topic = ''Data Wiping Process'', content = kb_content_4, relevance = 7\<rparr>
             \<in> set (searchKnowledgeBase ''Data Wiping Process'')"
    by (simp add: search_wiping_process)
  from topic_match_adds_five [OF h] h show ?thesis
    by simp
qed

section \<open>Properties of the session sweep\<close>

lemma map_of_sweep_entries:
  assumes "distinct (map fst es)"
  shows "map_of (sweep_entries es now store) k =
           (if \<exists>s. (k, s) \<in> set es \<and> now - lastActivity s > timeout then None else map_of store k)"
  using assms
proof (induction es arbitrary: store)
  case Nil
  then show ?case by simp
next
  case (Cons e es)
  obtain sid s where e: "e = (sid, s)" by (cases e)
  from Cons.prems have d: "distinct (map fst es)" and nin: "sid \<notin> fst ` set es"
    by (auto simp: e)
  show ?case
  proof (cases "now - lastActivity s > timeout")
    case True
    then show ?thesis
      using Cons.IH [OF d, of "AList.delete sid store"] nin
      by (auto simp: e delete_conv image_iff)
  next
    case False
    then show ?thesis
      using Cons.IH [OF d, of store] nin
      by (auto simp: e image_iff)
  qed
qed

lemma map_of_sweep:
  assumes "store_ok store"
  shows "map_of (sweep now store) k =
           (case map_of store k of
              None \<Rightarrow> None
            | Some s \<Rightarrow> if now - lastActivity s > timeout then None else Some s)"
proof -
  have d: "distinct (map fst store)" using assms by (simp add: store_ok_def)
  show ?thesis
  proof (cases "map_of store k")
    case None
    then show ?thesis
      by (simp add: sweep_def map_of_sweep_entries [OF d])
  next
    case (Some s)
    have uniq: "s' = s" if "(k, s') \<in> set store" for s'
    proof -
      from that have "map_of store k = Some s'" by (rule map_of_is_SomeI [OF d])
      with Some show ?thesis by simp
    qed
    have mem: "(k, s) \<in> set store" using Some by (rule map_of_SomeD)
    have "(\<exists>s'. (k, s') \<in> set store \<and> now - lastActivity s' > timeout)
          = (now - lastActivity s > timeout)"
      using uniq mem by blast
    then show ?thesis
      using Some by (simp add: sweep_def map_of_sweep_entries [OF d])
  qed
qed

lemma delete_ok: "store_ok store \<Longrightarrow> store_ok (AList.delete k store)"
  unfolding store_ok_def by (rule distinct_delete)

lemma sweep_entries_ok: "store_ok store \<Longrightarrow> store_ok (sweep_entries es now store)"
proof (induction es arbitrary: store)
  case Nil
  then show ?case by simp
next
  case (Cons e es)
  obtain sid s where e: "e = (sid, s)" by (cases e)
  show ?case
    using Cons.IH [of store] Cons.IH [of "AList.delete sid store"] Cons.prems delete_ok [of store sid]
    by (simp add: e)
qed

lemma sweep_ok: "store_ok store \<Longrightarrow> store_ok (sweep now store)"
  by (simp add: sweep_def sweep_entries_ok)

lemma store_ok_empty: "store_ok []"
  by (simp add: store_ok_def)

lemma update_ok: "store_ok store \<Longrightarrow> store_ok (AList.update k v store)"
  unfolding store_ok_def by (rule distinct_update)

lemma getOrCreateSession_ok:
  "store_ok store \<Longrightarrow> store_ok (snd (getOrCreateSession sid tc tf tt store))"
  by (simp add: getOrCreateSession_def Let_def update_ok split: option.splits)

lemma push_history_ok: "store_ok store \<Longrightarrow> store_ok (push_history sid m store)"
  by (simp add: push_history_def update_ok split: option.splits)

lemma getOrCreateSession_stored:
  "map_of (snd (getOrCreateSession sid tc tf tt store)) sid
     = Some (fst (getOrCreateSession sid tc tf tt store))"
  "lastActivity (fst (getOrCreateSession sid tc tf tt store)) = tt"
  by (simp_all add: getOrCreateSession_def Let_def update_conv' split: option.splits)

lemma touched_session_survives:
  assumes "store_ok store" and "now - tt \<le> timeout"
  shows "map_of (sweep now (snd (getOrCreateSession sid tc tf tt store))) sid
           = Some (fst (getOrCreateSession sid tc tf tt store))"
  using assms getOrCreateSession_ok [OF assms(1), of sid tc tf tt]
  by (simp add: map_of_sweep getOrCreateSession_stored)

text \<open>
  C8. In a store that holds each id once, a sweep at time \<open>now\<close> removes the session whose idle
  time \<open>now - lastActivity\<close> exceeds the timeout of 30 minutes (1800000 ms), and leaves a
  session whose idle time is within the timeout in the store, unchanged.
\<close>

theorem sweep_evicts_idle_keeps_fresh:
  assumes "store_ok store" and "map_of store sid = Some s"
  shows "timeout = 1800000
         \<and> (now - lastActivity s > timeout \<longrightarrow> map_of (sweep now store) sid = None)
         \<and> (now - lastActivity s \<le> timeout \<longrightarrow> map_of (sweep now store) sid = Some s)"
  using assms by (simp add: map_of_sweep timeout_def)

theorem sweep_evicts_idle_keeps_fresh_witness:
  "store_ok two_sessions
   \<and> map_of (sweep 2000000 two_sessions) ''a'' = None
   \<and> map_of (sweep 2000000 two_sessions) ''b''
       = Some \<lparr>session_id = ''b'', chatHistory = [(User, ''hi'')], createdAt = 5,
               lastActivity = 1000000\<rparr>"
proof -
  have ok: "store_ok two_sessions"
    by (simp add: store_ok_def two_sessions_def)
  have a: "map_of two_sessions ''a''
           = Some \<lparr>session_id = ''a'', chatHistory = [], createdAt = 0, lastActivity = 0\<rparr>"
    by (simp add: two_sessions_def)
  have b: "map_of two_sessions ''b''
           = Some \<lparr>session_id = ''b'', chatHistory = [(User, ''hi'')], createdAt = 5,
                   lastActivity = 1000000\<rparr>"
    by (simp add: two_sessions_def)
  show ?thesis
    using ok sweep_evicts_idle_keeps_fresh [OF ok a, of 2000000]
      sweep_evicts_idle_keeps_fresh [OF ok b, of 2000000]
    by simp
qed

section \<open>Properties of \<^verbatim>\<open>getOrCreateSession\<close>\<close>

lemma getOrCreateSession_existing:
  assumes "map_of store sid = Some s"
  shows "getOrCreateSession sid tc tf tt store
           = (s\<lparr>lastActivity := tt\<rparr>, AList.update sid (s\<lparr>lastActivity := tt\<rparr>) store)"
  using assms by (simp add: getOrCreateSession_def Let_def)

lemma update_keys_existing:
  "map_of al k = Some v \<Longrightarrow> map fst (AList.update k v' al) = map fst al"
  by (induction al) (auto split: if_splits)

text \<open>
  C10. When the id is already in the store, \<^verbatim>\<open>getOrCreateSession\<close> returns the stored session
  with only \<open>lastActivity\<close> set to the new reading: its id, history and creation time are
  unchanged, every other id still maps to the same session, and the order of the keys is kept.
\<close>

theorem getOrCreateSession_touches_only_lastActivity:
  assumes "map_of store sid = Some s"
    and "getOrCreateSession sid tc tf tt store = (s', store')"
  shows "session_id s' = session_id s \<and> chatHistory s' = chatHistory s
         \<and> createdAt s' = createdAt s \<and> lastActivity s' = tt
         \<and> s' = s\<lparr>lastActivity := tt\<rparr>
         \<and> map_of store' sid = Some s'
         \<and> (\<forall>k. k \<noteq> sid \<longrightarrow> map_of store' k = map_of store k)
         \<and> map fst store' = map fst store"
proof -
  from assms have s': "s' = s\<lparr>lastActivity := tt\<rparr>"
    and st: "store' = AList.update sid (s\<lparr>lastActivity := tt\<rparr>) store"
    by (auto simp: getOrCreateSession_existing)
  show ?thesis
    unfolding s' st using assms(1) by (simp add: update_conv' update_keys_existing)
qed

theorem getOrCreateSession_touches_only_lastActivity_witness:
  "getOrCreateSession ''b'' 7 8 9 two_sessions =
     (\<lparr>session_id = ''b'', chatHistory = [(User, ''hi'')], createdAt = 5, lastActivity = 9\<rparr>,
      [(''a'', \<lparr>session_id = ''a'', chatHistory = [], createdAt = 0, lastActivity = 0\<rparr>),
       (''b'', \<lparr>session_id = ''b'', chatHistory = [(User, ''hi'')], createdAt = 5,
               lastActivity = 9\<rparr>)])
   \<and> map_of (snd (getOrCreateSession ''b'' 7 8 9 two_sessions)) ''a'' = map_of two_sessions ''a''
   \<and> chatHistory (fst (getOrCreateSession ''b'' 7 8 9 two_sessions)) = [(User, ''hi'')]"
proof -
  have b: "map_of two_sessions ''b''
           = Some \<lparr>session_id = ''b'', chatHistory = [(User, ''hi'')], createdAt = 5,
                   lastActivity = 1000000\<rparr>"
    by (simp add: two_sessions_def)
  have e: "getOrCreateSession ''b'' 7 8 9 two_sessions =
     (\<lparr>session_id = ''b'', chatHistory = [(User, ''hi'')], createdAt = 5, lastActivity = 9\<rparr>,
      [(''a'', \<lparr>session_id = ''a'', chatHistory = [], createdAt = 0, lastActivity = 0\<rparr>),
       (''b'', \<lparr>session_id = ''b'', chatHistory = [(User, ''hi'')], createdAt = 5,
               lastActivity = 9\<rparr>)])"
    by (simp add: getOrCreateSession_def two_sessions_def Let_def)
  from getOrCreateSession_touches_only_lastActivity [OF b e] e show ?thesis
    by (simp add: two_sessions_def)
qed

section \<open>Properties of the simulated streams\<close>

lemma split_space_nonempty: "split_space s \<noteq> []"
  by (induction s) (auto split: list.splits)

lemma join_split: "join_space (split_space s) = s"
proof (induction s)
  case Nil
  then show ?case by simp
next
  case (Cons c cs)
  obtain w ws where sp: "split_space cs = w # ws"
    using split_space_nonempty [of cs] by (cases "split_space cs") auto
  show ?case
    using Cons.IH by (cases ws) (auto simp: sp)
qed

lemma split_space_word: "CHR '' '' \<notin> set w \<Longrightarrow> split_space w = [w]"
  by (induction w) auto

lemma split_space_word_space:
  "CHR '' '' \<notin> set w \<Longrightarrow> split_space (w @ CHR '' '' # rest) = w # split_space rest"
  by (induction w) auto

lemma split_join:
  "ws \<noteq> [] \<Longrightarrow> \<forall>w \<in> set ws. CHR '' '' \<notin> set w \<Longrightarrow> split_space (join_space ws) = ws"
  by (induction ws rule: join_space.induct) (auto simp: split_space_word split_space_word_space)

lemma join_space_snoc:
  "join_space (xs @ [x]) = (if xs = [] then x else join_space xs @ CHR '' '' # x)"
  by (induction xs rule: join_space.induct) auto

lemma join_take_Suc:
  assumes "k < length ws"
  shows "join_space (take (Suc k) ws)
           = join_space (take k ws) @ (if k > 0 then '' '' else []) @ ws ! k"
  using assms by (auto simp: take_Suc_conv_app_nth join_space_snoc)

lemma prefixes_upto_Suc:
  "prefixes_upto ws (Suc k) = prefixes_upto ws k @ [(join_space (take (Suc k) ws), False)]"
  by (simp add: prefixes_upto_def)

lemma demo_periods:
  "(timer_period ^^ m) \<lparr>response = r, words = ws, index = 0, interval_set = True, chunks = []\<rparr>
     = \<lparr>response = r, words = ws, index = min m (length ws), interval_set = (m \<le> length ws),
        chunks = prefixes_upto ws (min m (length ws))
                 @ (if m > length ws then [(r, True)] else [])\<rparr>"
proof (induction m)
  case 0
  then show ?case by (simp add: prefixes_upto_def)
next
  case (Suc m)
  let ?st = "\<lparr>response = r, words = ws, index = min m (length ws),
               interval_set = (m \<le> length ws),
               chunks = prefixes_upto ws (min m (length ws))
                        @ (if m > length ws then [(r, True)] else [])\<rparr>"
  have step: "(timer_period ^^ Suc m)
                \<lparr>response = r, words = ws, index = 0, interval_set = True, chunks = []\<rparr>
              = timer_period ?st"
    by (simp only: funpow.simps o_apply Suc.IH)
  consider "m < length ws" | "m = length ws" | "m > length ws" by linarith
  then show ?case
  proof cases
    case 1
    then show ?thesis
      unfolding step by (simp add: timer_period_def interval_callback_def prefixes_upto_Suc)
  next
    case 2
    then show ?thesis
      unfolding step by (simp add: timer_period_def interval_callback_def)
  next
    case 3
    then show ?thesis
      unfolding step by (simp add: timer_period_def)
  qed
qed

lemma demoStream_chunks:
  assumes "m > length (split_space (demo_response msg))"
  shows "chunks ((timer_period ^^ m) (demoStream msg))
           = prefixes_upto (split_space (demo_response msg))
               (length (split_space (demo_response msg)))
             @ [(demo_response msg, True)]"
    and "\<not> interval_set ((timer_period ^^ m) (demoStream msg))"
  using assms by (simp_all add: demoStream_def Let_def demo_periods)

lemma demoStream_chunks_before:
  assumes "k \<le> length (split_space (demo_response msg))"
  shows "chunks ((timer_period ^^ k) (demoStream msg))
           = prefixes_upto (split_space (demo_response msg)) k"
  using assms by (simp add: demoStream_def Let_def demo_periods)

lemma periods_after_cleanup: "(timer_period ^^ m) (cleanup st) = cleanup st"
  by (induction m) (simp_all add: timer_period_def cleanup_def)

lemma sse_start_at: "sse_start text = sse_at (split_space text) 0 True"
  by (simp add: sse_start_def sse_at_def)

lemma sse_iteration_at:
  assumes "k < length ws"
  shows "sse_iteration (sse_at ws k c) = sse_at ws (Suc k) c"
proof -
  have "k = length ws - Suc 0 \<longleftrightarrow> Suc k = length ws"
    using assms by auto
  then show ?thesis
    using assms by (simp add: sse_iteration_def sse_at_def Let_def join_take_Suc)
qed

lemma sse_iterations_at:
  "k + m \<le> length ws \<Longrightarrow> (sse_iteration ^^ m) (sse_at ws k c) = sse_at ws (k + m) c"
proof (induction m)
  case 0
  then show ?case by simp
next
  case (Suc m)
  then have "(sse_iteration ^^ Suc m) (sse_at ws k c) = sse_iteration (sse_at ws (k + m) c)"
    by simp
  also have "\<dots> = sse_at ws (Suc (k + m)) c"
    using Suc.prems by (intro sse_iteration_at) simp
  finally show ?case by simp
qed

lemma client_closes_at: "client_closes (sse_at ws k c) = sse_at ws k False"
  by (simp add: client_closes_def sse_at_def)

lemma sse_loop_at:
  "k \<le> length ws \<Longrightarrow> sse_loop (sse_at ws k c) = (sse_at ws (length ws) c)\<lparr>ended := True\<rparr>"
proof (induction "length ws - k" arbitrary: k)
  case 0
  then have "k = length ws" by simp
  then show ?case
    by (subst sse_loop.simps) (simp add: sse_at_def)
next
  case (Suc d)
  then have lt: "k < length ws" and d: "d = length ws - Suc k" by simp_all
  have "sse_loop (sse_at ws k c) = sse_loop (sse_iteration (sse_at ws k c))"
    using lt by (subst sse_loop.simps) (simp add: sse_at_def)
  also have "\<dots> = sse_loop (sse_at ws (Suc k) c)"
    using lt by (simp add: sse_iteration_at)
  also have "\<dots> = (sse_at ws (length ws) c)\<lparr>ended := True\<rparr>"
    using Suc.hyps(1) [OF d] lt by simp
  finally show ?case .
qed

lemma sse_at_written:
  "written (sse_at ws k c) = map (\<lambda>j. (join_space (take j ws), j = length ws)) [1..<Suc k]"
  by (simp add: sse_at_def)

lemma frames_last:
  assumes "ws \<noteq> []"
  shows "map (\<lambda>j. (join_space (take j ws), j = length ws)) [1..<Suc (length ws)]
           = prefixes_upto ws (length ws - 1) @ [(join_space ws, True)]"
proof -
  obtain n where n: "length ws = Suc n"
    using assms by (cases ws) auto
  have "map (\<lambda>j. (join_space (take j ws), j = Suc n)) [1..<Suc n]
          = map (\<lambda>j. (join_space (take j ws), False)) [1..<Suc n]"
    by (rule map_cong) auto
  then show ?thesis
    by (simp add: n prefixes_upto_def)
qed

lemma sse_loop_start:
  "sse_loop (sse_start text)
     = (sse_at (split_space text) (length (split_space text)) True)\<lparr>ended := True\<rparr>"
  by (simp add: sse_start_at sse_loop_at)

lemma sse_loop_written:
  "written (sse_loop (sse_start text))
     = prefixes_upto (split_space text) (length (split_space text) - 1) @ [(text, True)]"
  using frames_last [OF split_space_nonempty, of "text"]
  by (simp add: sse_loop_start sse_at_written join_split del: upt_Suc)

lemma sse_loop_after_close:
  assumes "k \<le> length (split_space text)"
  shows "sse_loop (client_closes ((sse_iteration ^^ k) (sse_start text)))
           = (sse_loop (sse_start text))\<lparr>client_connected := False\<rparr>"
proof -
  have "sse_loop (client_closes ((sse_iteration ^^ k) (sse_start text)))
          = (sse_at (split_space text) (length (split_space text)) False)\<lparr>ended := True\<rparr>"
    using assms by (simp add: sse_start_at sse_iterations_at client_closes_at sse_loop_at)
  then show ?thesis
    by (simp add: sse_loop_start sse_at_def)
qed

lemma written_before_close:
  assumes "k \<le> length (split_space text)"
  shows "written ((sse_iteration ^^ k) (sse_start text))
           = take k (written (sse_loop (sse_start text)))"
proof -
  have "(sse_iteration ^^ k) (sse_start text) = sse_at (split_space text) k True"
    using assms by (simp add: sse_start_at sse_iterations_at)
  moreover have "take k [1..<Suc (length (split_space text))] = [1..<Suc k]"
    using assms by (simp del: upt_Suc)
  ultimately show ?thesis
    by (simp add: sse_loop_start sse_at_written take_map del: upt_Suc)
qed

lemma demo_response_rag: "demo_response ''rag'' = responses_rag"
  by (simp add: demo_response_def toLowerCase_def Let_def)

lemma sse_loop_ended: "ended (sse_loop (sse_start text'))"
  by (simp add: sse_loop_start sse_at_def)

lemma sse_loop_timeouts: "timeouts (sse_loop (sse_start text')) = length (split_space text')"
  by (simp add: sse_loop_start sse_at_def)

lemma sse_loop_length: "length (written (sse_loop (sse_start text'))) = length (split_space text')"
  by (simp add: sse_loop_start sse_at_written del: upt_Suc)

lemma split_a_b: "split_space ''a b'' = [''a'', ''b'']"
  by simp

lemma split_a_b_c: "split_space ''a b c'' = [''a'', ''b'', ''c'']"
  by simp

lemma written_a_b: "written (sse_loop (sse_start ''a b'')) = [(''a'', False), (''a b'', True)]"
  by (simp add: sse_loop_written prefixes_upto_def)

lemma written_a_b_c:
  "written (sse_loop (sse_start ''a b c'')) = [(''a'', False), (''a b'', False), (''a b c'', True)]"
  by (simp add: sse_loop_written prefixes_upto_def)

text \<open>
  C1, as stated, fails on the server: for the text \<^verbatim>\<open>"a b"\<close> of two words,
  \<^verbatim>\<open>GET /api/chat/stream\<close> writes two frames of which only one is non-final; the frame of
  the last word is itself the final one.
\<close>

theorem server_stream_last_word_is_final:
  "length (split_space ''a b'') = 2
   \<and> written (sse_loop (sse_start ''a b'')) = [(''a'', False), (''a b'', True)]
   \<and> length (filter (\<lambda>f. \<not> snd f) (written (sse_loop (sse_start ''a b'')))) = 1"
  by (simp add: written_a_b)

text \<open>
  C1, amended. With \<open>n\<close> the number of pieces that \<^verbatim>\<open>split(' ')\<close> gives for the response
  text: \<^verbatim>\<open>demoStream\<close> emits exactly \<open>n\<close> non-final events, the cumulative prefixes of 1
  to \<open>n\<close> words joined by single spaces, then exactly one final event with the whole response,
  and nothing after it, however long the timer runs. \<^verbatim>\<open>GET /api/chat/stream\<close> writes \<open>n\<close>
  frames and ends the response: the first \<open>n - 1\<close> are the non-final prefixes of 1 to \<open>n - 1\<close>
  words, and the \<open>n\<close>-th, which carries the whole text, is the final one. For a text made of
  words without spaces joined by single spaces, the pieces are those words.
\<close>

theorem simulated_stream_events:
  "(\<forall>m > length (split_space (demo_response msg)).
      chunks ((timer_period ^^ m) (demoStream msg))
        = prefixes_upto (split_space (demo_response msg))
            (length (split_space (demo_response msg)))
          @ [(demo_response msg, True)])
   \<and> written (sse_loop (sse_start text'))
       = prefixes_upto (split_space text') (length (split_space text') - 1) @ [(text', True)]
   \<and> ended (sse_loop (sse_start text'))
   \<and> (ws \<noteq> [] \<and> (\<forall>w \<in> set ws. CHR '' '' \<notin> set w) \<longrightarrow> split_space (join_space ws) = ws)"
  using demoStream_chunks(1) sse_loop_written sse_loop_ended split_join by blast

theorem simulated_stream_events_witness:
  "chunks ((timer_period ^^ Suc (length (split_space responses_rag))) (demoStream ''rag''))
     = prefixes_upto (split_space responses_rag) (length (split_space responses_rag))
       @ [(responses_rag, True)]
   \<and> written (sse_loop (sse_start ''a b c''))
       = [(''a'', False), (''a b'', False), (''a b c'', True)]
   \<and> split_space (join_space [''a'', ''b'', ''c'']) = [''a'', ''b'', ''c'']"
proof -
  note t = simulated_stream_events [of "''rag''" "''a b c''" "[''a'', ''b'', ''c'']"]
  from t have "\<forall>m > length (split_space (demo_response ''rag'')).
      chunks ((timer_period ^^ m) (demoStream ''rag''))
        = prefixes_upto (split_space (demo_response ''rag''))
            (length (split_space (demo_response ''rag'')))
          @ [(demo_response ''rag'', True)]"
    by blast
  then have a: "chunks ((timer_period ^^ Suc (length (split_space (demo_response ''rag''))))
                  (demoStream ''rag''))
        = prefixes_upto (split_space (demo_response ''rag''))
            (length (split_space (demo_response ''rag'')))
          @ [(demo_response ''rag'', True)]"
    by blast
  from t have b: "written (sse_loop (sse_start ''a b c''))
       = prefixes_upto (split_space ''a b c'') (length (split_space ''a b c'') - 1)
         @ [(''a b c'', True)]"
    by blast
  from t have c: "split_space (join_space [''a'', ''b'', ''c'']) = [''a'', ''b'', ''c'']"
    by simp
  from a b c show ?thesis
    by (simp add: demo_response_rag prefixes_upto_def)
qed

text \<open>
  C2, as stated, fails on the server: when the client closes the connection after the first of
  the three frames of \<^verbatim>\<open>"a b c"\<close>, the handler still writes the second and the third frame
  and awaits all three delays.
\<close>

theorem server_stream_ignores_close:
  "written (sse_iteration (sse_start ''a b c'')) = [(''a'', False)]
   \<and> written (sse_loop (client_closes (sse_iteration (sse_start ''a b c''))))
       = [(''a'', False), (''a b'', False), (''a b c'', True)]
   \<and> timeouts (sse_loop (client_closes (sse_iteration (sse_start ''a b c'')))) = 3"
proof -
  have w1: "written (sse_iteration (sse_start ''a b c'')) = [(''a'', False)]"
    by (simp add: sse_start_def sse_iteration_def Let_def)
  have "sse_loop (client_closes ((sse_iteration ^^ Suc 0) (sse_start ''a b c'')))
          = (sse_loop (sse_start ''a b c''))\<lparr>client_connected := False\<rparr>"
    by (rule sse_loop_after_close) simp
  then have "sse_loop (client_closes (sse_iteration (sse_start ''a b c'')))
          = (sse_loop (sse_start ''a b c''))\<lparr>client_connected := False\<rparr>"
    by simp
  then show ?thesis
    by (simp add: w1 written_a_b_c sse_loop_timeouts)
qed

lemma cleanup_sel: "chunks (cleanup st) = chunks st" "interval_set (cleanup st) = False"
  by (simp_all add: cleanup_def)

text \<open>
  C2, amended. In the client, calling the function that \<^verbatim>\<open>demoStream\<close> returned after \<open>k\<close>
  events (\<open>k\<close> at most the number of words) clears the interval: the events emitted stay the
  first \<open>k\<close> prefixes for any number \<open>m\<close> of further timer periods; and a stream that runs to
  its end has cleared its interval. The server's loop has no cancellation: when the client
  closes the connection after \<open>j\<close> frames, the loop ends in the same state as without the
  close, apart from the connection flag, so every frame is written and every delay awaited.
\<close>

theorem cancellation_client_only:
  "(k \<le> length (split_space (demo_response msg)) \<longrightarrow>
      chunks ((timer_period ^^ m) (cleanup ((timer_period ^^ k) (demoStream msg))))
        = prefixes_upto (split_space (demo_response msg)) k
      \<and> \<not> interval_set ((timer_period ^^ m) (cleanup ((timer_period ^^ k) (demoStream msg)))))
   \<and> (m > length (split_space (demo_response msg)) \<longrightarrow>
        \<not> interval_set ((timer_period ^^ m) (demoStream msg)))
   \<and> (j < length (split_space text') \<longrightarrow>
        written ((sse_iteration ^^ j) (sse_start text'))
          = take j (written (sse_loop (sse_start text')))
        \<and> sse_loop (client_closes ((sse_iteration ^^ j) (sse_start text')))
            = (sse_loop (sse_start text'))\<lparr>client_connected := False\<rparr>
        \<and> length (written (sse_loop (sse_start text'))) = length (split_space text')
        \<and> timeouts (sse_loop (sse_start text')) = length (split_space text'))"
  by (simp add: periods_after_cleanup cleanup_sel demoStream_chunks_before demoStream_chunks(2)
        sse_loop_after_close written_before_close sse_loop_length sse_loop_timeouts)

lemma prefixes_rag_2:
  "prefixes_upto (split_space responses_rag) 2 = [(''Our'', False), (''Our RAG'', False)]"
  by (simp add: prefixes_upto_def responses_rag_def eval_nat_numeral)

theorem cancellation_client_only_witness:
  "chunks ((timer_period ^^ 7) (cleanup ((timer_period ^^ 2) (demoStream ''rag''))))
     = [(''Our'', False), (''Our RAG'', False)]
   \<and> \<not> interval_set ((timer_period ^^ 7) (cleanup ((timer_period ^^ 2) (demoStream ''rag''))))
   \<and> written ((sse_iteration ^^ 1) (sse_start ''a b c'')) = [(''a'', False)]
   \<and> written (sse_loop (client_closes ((sse_iteration ^^ 1) (sse_start ''a b c''))))
       = [(''a'', False), (''a b'', False), (''a b c'', True)]"
proof -
  have n: "length (split_space responses_rag) = 20"
    by (simp add: responses_rag_def)
  have "(2::nat) \<le> length (split_space (demo_response ''rag''))"
    by (simp add: demo_response_rag n)
  moreover have "(1::nat) < length (split_space ''a b c'')"
    by simp
  ultimately show ?thesis
    using cancellation_client_only [of 2 "''rag''" 7 1 "''a b c''"]
    by (simp add: demo_response_rag prefixes_rag_2 written_a_b_c)
qed

section \<open>Properties of generation\<close>

lemma or_default_cases:
  "or_default None d = d"
  "or_default (Some v) d = (if v = 0 then d else v)"
  by (simp_all add: or_default_def)

lemma generationConfig_values:
  "maxOutputTokens (generationConfig config)
     = (case maxTokens config of None \<Rightarrow> 2048 | Some n \<Rightarrow> if n = 0 then 2048 else n)"
  "gen_temperature (generationConfig config)
     = (case temperature config of None \<Rightarrow> 0.7 | Some t \<Rightarrow> if t = 0 then 0.7 else t)"
  "topP (generationConfig config) = 0.95"
  "topK (generationConfig config) = 40"
  by (simp_all add: generationConfig_def or_default_def split: option.splits)

lemma generate_request:
  "\<exists>rq. snd (generateGeminiResponse remote key msg h cfg) = [rq]
        \<and> apiKey rq = key \<and> history rq = h \<and> generation rq = generationConfig cfg"
  by (auto simp: generateGeminiResponse_def Let_def split: sum.splits)

lemma generate_result:
  "fst (generateGeminiResponse remote key msg h cfg)
     = (case remote (hd (snd (generateGeminiResponse remote key msg h cfg))) of
          Inr t \<Rightarrow> Inr t
        | Inl e \<Rightarrow> if api_key_error e then Inr api_key_fallback else Inl e)"
  by (auto simp: generateGeminiResponse_def Let_def split: sum.splits)

lemma generate_failing:
  assumes "\<forall>rq. remote rq = Inl e"
  shows "fst (generateGeminiResponse remote key msg h cfg)
           = (if api_key_error e then Inr api_key_fallback else Inl e)"
  using assms by (simp add: generate_result)

text \<open>
  C6 at the input \<^verbatim>\<open>config = {temperature: 0}\<close>: the generation configuration, and the one
  request sent to the model API, carry the temperature 0.7, not the 0 that was supplied.
\<close>

theorem temperature_zero_falls_back:
  "gen_temperature (generationConfig (empty_config\<lparr>temperature := Some 0\<rparr>)) = 0.7
   \<and> map (gen_temperature \<circ> generation)
         (snd (generateGeminiResponse remote key message h (empty_config\<lparr>temperature := Some 0\<rparr>)))
       = [0.7]"
proof -
  obtain rq where
    "snd (generateGeminiResponse remote key message h (empty_config\<lparr>temperature := Some 0\<rparr>)) = [rq]"
    and "generation rq = generationConfig (empty_config\<lparr>temperature := Some 0\<rparr>)"
    using generate_request by blast
  then show ?thesis
    by (simp add: generationConfig_values empty_config_def)
qed

text \<open>The other cases of C6: a supplied non-zero value is used, an absent one gets the default.\<close>

lemma generationConfig_supplied:
  "maxTokens config = Some n \<Longrightarrow> n > 0 \<Longrightarrow> maxOutputTokens (generationConfig config) = n"
  "maxTokens config = None \<Longrightarrow> maxOutputTokens (generationConfig config) = 2048"
  "temperature config = Some t \<Longrightarrow> 0 < t \<Longrightarrow> gen_temperature (generationConfig config) = t"
  "temperature config = None \<Longrightarrow> gen_temperature (generationConfig config) = 0.7"
  by (simp_all add: generationConfig_values)

section \<open>Properties of the chat endpoints\<close>

lemma generate_failing_pair:
  assumes "\<forall>rq. remote rq = Inl e"
  shows "\<exists>rq. generateGeminiResponse remote key msg h cfg
                = (if api_key_error e then Inr api_key_fallback else Inl e, [rq])
              \<and> apiKey rq = key"
  using assms by (simp add: generateGeminiResponse_def Let_def)

lemma post_no_message:
  assumes "req_message req = None"
  shows "post_api_chat remote key clk hdr req store
           = (\<lparr>status = 500,
               body = Error_body ''Failed to generate response''
                        (err_message substring_of_undefined)\<rparr>, store, [])"
  using assms by (simp add: post_api_chat_def Let_def)

lemma post_calls_once:
  assumes "req_message req = Some m"
  shows "\<exists>rq. snd (snd (post_api_chat remote key clk hdr req store)) = [rq] \<and> apiKey rq = key"
proof -
  let ?sid = "case hdr of None \<Rightarrow> ''default'' | Some h \<Rightarrow> if h = [] then ''default'' else h"
  obtain session store1 where g:
    "getOrCreateSession ?sid (t_created clk) (t_first clk) (t_touch clk) store = (session, store1)"
    by (cases "getOrCreateSession ?sid (t_created clk) (t_first clk) (t_touch clk) store")
  let ?h = "case req_chatHistory req of Some h \<Rightarrow> h | None \<Rightarrow> chatHistory session @ [(User, m)]"
  let ?cfg = "case req_config req of None \<Rightarrow> empty_config | Some c \<Rightarrow> c"
  obtain rq where r: "snd (generateGeminiResponse remote key m ?h ?cfg) = [rq]" "apiKey rq = key"
    using generate_request by blast
  obtain res where p: "generateGeminiResponse remote key m ?h ?cfg = (res, [rq])"
    using r(1) by (cases "generateGeminiResponse remote key m ?h ?cfg") simp
  show ?thesis
    using assms r(2) by (cases res) (simp_all add: post_api_chat_def Let_def g p)
qed

lemma post_failing:
  assumes "\<forall>rq. remote rq = Inl e" and "req_message req = Some m"
  shows "status (fst (post_api_chat remote key clk hdr req store))
           = (if api_key_error e then 200 else 500)"
    and "\<not> api_key_error e \<Longrightarrow>
           body (fst (post_api_chat remote key clk hdr req store))
             = Error_body ''Failed to generate response'' (err_message e)"
    and "api_key_error e \<Longrightarrow>
           \<exists>mid mdl sid ts. body (fst (post_api_chat remote key clk hdr req store))
             = Chat_body mid api_key_fallback mdl sid ts"
proof -
  let ?sid = "case hdr of None \<Rightarrow> ''default'' | Some h \<Rightarrow> if h = [] then ''default'' else h"
  obtain session store1 where g:
    "getOrCreateSession ?sid (t_created clk) (t_first clk) (t_touch clk) store = (session, store1)"
    by (cases "getOrCreateSession ?sid (t_created clk) (t_first clk) (t_touch clk) store")
  let ?h = "case req_chatHistory req of Some h \<Rightarrow> h | None \<Rightarrow> chatHistory session @ [(User, m)]"
  let ?cfg = "case req_config req of None \<Rightarrow> empty_config | Some c \<Rightarrow> c"
  obtain rq where p: "generateGeminiResponse remote key m ?h ?cfg
                        = (if api_key_error e then Inr api_key_fallback else Inl e, [rq])"
    using generate_failing_pair [OF assms(1)] by blast
  show "status (fst (post_api_chat remote key clk hdr req store))
           = (if api_key_error e then 200 else 500)"
    using assms(2) by (simp add: post_api_chat_def Let_def g p)
  show "\<not> api_key_error e \<Longrightarrow>
           body (fst (post_api_chat remote key clk hdr req store))
             = Error_body ''Failed to generate response'' (err_message e)"
    using assms(2) by (simp add: post_api_chat_def Let_def g p)
  show "api_key_error e \<Longrightarrow>
           \<exists>mid mdl sid ts. body (fst (post_api_chat remote key clk hdr req store))
             = Chat_body mid api_key_fallback mdl sid ts"
    using assms(2) by (simp add: post_api_chat_def Let_def g p)
qed

lemma server_js_rejects:
  assumes "chatHistory' = None \<or> chatHistory' = Some []"
  shows "server_js_post_chat sdk chatHistory'
           = (\<lparr>status = 400, body = Error_body ''contents are required'' None\<rparr>, [])"
  using assms by (auto simp: server_js_post_chat_def)

lemma fetch_failed_not_key: "\<not> api_key_error (JsError (Some ''fetch failed''))"
  by (simp add: api_key_error_def)

lemma bad_key_is_key_error:
  "api_key_error (JsError (Some ''API key not valid. Please pass a valid API key.''))"
  by (simp add: api_key_error_def)

text \<open>
  C7, as stated, fails: when the remote call fails with \<^verbatim>\<open>fetch failed\<close>,
  \<^verbatim>\<open>generateGeminiResponse\<close> throws the error to its caller and \<^verbatim>\<open>POST /api/chat\<close> answers
  with status 500.
\<close>

theorem other_upstream_errors_propagate:
  "fst (generateGeminiResponse remote_down ''k'' ''hi'' [(User, ''hi'')] empty_config)
     = Inl (JsError (Some ''fetch failed''))
   \<and> fst (post_api_chat remote_down ''k'' clock0 None request_hi [])
       = \<lparr>status = 500,
          body = Error_body ''Failed to generate response'' (Some ''fetch failed'')\<rparr>"
proof -
  have d: "\<forall>rq. remote_down rq = Inl (JsError (Some ''fetch failed''))"
    by (simp add: remote_down_def)
  have m: "req_message request_hi = Some ''hi''"
    by (simp add: request_hi_def)
  have "status (fst (post_api_chat remote_down ''k'' clock0 None request_hi [])) = 500"
    using post_failing(1) [OF d m] fetch_failed_not_key by simp
  moreover have "body (fst (post_api_chat remote_down ''k'' clock0 None request_hi []))
                   = Error_body ''Failed to generate response'' (Some ''fetch failed'')"
    using post_failing(2) [OF d m fetch_failed_not_key] by simp
  ultimately have "fst (post_api_chat remote_down ''k'' clock0 None request_hi [])
       = \<lparr>status = 500,
          body = Error_body ''Failed to generate response'' (Some ''fetch failed'')\<rparr>"
    by (cases "fst (post_api_chat remote_down ''k'' clock0 None request_hi [])") simp
  then show ?thesis
    using generate_failing [OF d] fetch_failed_not_key by simp
qed

text \<open>
  C7, amended. When the remote call fails with error \<open>e\<close>: if the message of \<open>e\<close> contains
  \<^verbatim>\<open>API key\<close>, \<^verbatim>\<open>generateGeminiResponse\<close> returns the fallback text and
  \<^verbatim>\<open>POST /api/chat\<close> answers 200 with it; otherwise the function rethrows \<open>e\<close> and the
  endpoint answers 500 with the error \<^verbatim>\<open>Failed to generate response\<close> and the message of \<open>e\<close>.
\<close>

theorem upstream_failure_recovery:
  assumes "\<forall>rq. remote rq = Inl e" and "req_message req = Some message"
  shows "fst (generateGeminiResponse remote key message h config)
           = (if api_key_error e then Inr api_key_fallback else Inl e)
         \<and> status (fst (post_api_chat remote key clk hdr req store))
             = (if api_key_error e then 200 else 500)
         \<and> (api_key_error e \<longrightarrow>
               (\<exists>mid mdl sid ts. body (fst (post_api_chat remote key clk hdr req store))
                  = Chat_body mid api_key_fallback mdl sid ts))
         \<and> (\<not> api_key_error e \<longrightarrow>
               body (fst (post_api_chat remote key clk hdr req store))
                 = Error_body ''Failed to generate response'' (err_message e))"
  using generate_failing [OF assms(1)] post_failing [OF assms] by simp

theorem upstream_failure_recovery_witness:
  "fst (generateGeminiResponse remote_bad_key ''k'' ''hi'' [] empty_config) = Inr api_key_fallback
   \<and> status (fst (post_api_chat remote_bad_key ''k'' clock0 None request_hi [])) = 200
   \<and> fst (generateGeminiResponse remote_down ''k'' ''hi'' [] empty_config)
       = Inl (JsError (Some ''fetch failed''))
   \<and> status (fst (post_api_chat remote_down ''k'' clock0 None request_hi [])) = 500"
proof -
  have b: "\<forall>rq. remote_bad_key rq
             = Inl (JsError (Some ''API key not valid. Please pass a valid API key.''))"
    by (simp add: remote_bad_key_def)
  have d: "\<forall>rq. remote_down rq = Inl (JsError (Some ''fetch failed''))"
    by (simp add: remote_down_def)
  have m: "req_message request_hi = Some ''hi''"
    by (simp add: request_hi_def)
  show ?thesis
    using upstream_failure_recovery [OF b m, of "''k''" "[]" empty_config clock0 None "[]"]
      upstream_failure_recovery [OF d m, of "''k''" "[]" empty_config clock0 None "[]"]
      bad_key_is_key_error fetch_failed_not_key
    by simp
qed

text \<open>
  On a body with a string message and a config other than \<^verbatim>\<open>null\<close> the handler is
  \<open>post_api_chat\<close> on the typed request; the other bodies end in the \<^verbatim>\<open>catch\<close> block
  before any remote call.
\<close>

lemma ragEnabled_of_null_not_key: "\<not> api_key_error ragEnabled_of_null"
  by (simp add: api_key_error_def ragEnabled_of_null_def)

lemma generate_call_null:
  "generateGeminiResponse_call remote key message h Null = (Inl ragEnabled_of_null, [])"
  by (simp add: generateGeminiResponse_call_def ragEnabled_of_null_not_key)

lemma generate_call_typed:
  assumes "raw_config raw \<noteq> Null"
  shows "generateGeminiResponse_call remote key message h (raw_config raw)
           = generateGeminiResponse remote key message h
               (case req_config (typed_request message raw) of
                  None \<Rightarrow> empty_config | Some c \<Rightarrow> c)"
  using assms
  by (cases "raw_config raw") (simp_all add: generateGeminiResponse_call_def typed_request_def)

lemma metadata_model_typed:
  "metadata_model (raw_config raw)
     = (case model (case req_config (typed_request message raw) of
                      None \<Rightarrow> empty_config | Some c \<Rightarrow> c) of
          None \<Rightarrow> ''gemini-pro''
        | Some m \<Rightarrow> if m = [] then ''gemini-pro'' else m)"
  by (cases "raw_config raw")
     (simp_all add: metadata_model_def typed_request_def empty_config_def)

lemma post_raw_typed:
  assumes "raw_message raw = Value message" and "raw_config raw \<noteq> Null"
  shows "post_api_chat_raw remote key clk hdr raw store
           = post_api_chat remote key clk hdr (typed_request message raw) store"
proof -
  have m: "req_message (typed_request message raw) = Some message"
    and h: "req_chatHistory (typed_request message raw) = raw_chatHistory raw"
    by (simp_all add: typed_request_def)
  show ?thesis
    unfolding post_api_chat_raw_def post_api_chat_def metadata_model_typed [of raw message]
    by (simp add: assms(1) m h generate_call_typed [OF assms(2)] Let_def)
qed

lemma post_raw_not_string:
  assumes "\<forall>message. raw_message raw \<noteq> Value message"
  shows "post_api_chat_raw remote key clk hdr raw store
           = (\<lparr>status = 500,
               body = Error_body ''Failed to generate response''
                        (err_message (substring_error (raw_message raw)))\<rparr>, store, [])"
  using assms by (cases "raw_message raw") (simp_all add: post_api_chat_raw_def Let_def)

lemma post_raw_null_config:
  assumes "raw_message raw = Value message" and "raw_config raw = Null"
  shows "fst (post_api_chat_raw remote key clk hdr raw store)
           = \<lparr>status = 500,
              body = Error_body ''Failed to generate response''
                       (err_message ragEnabled_of_null)\<rparr>"
    and "snd (snd (post_api_chat_raw remote key clk hdr raw store)) = []"
  using assms
  by (simp_all add: post_api_chat_raw_def Let_def generate_call_null split: prod.splits)

lemma post_raw_calls_once:
  assumes "raw_message raw = Value message" and "raw_config raw \<noteq> Null"
  shows "\<exists>rq. snd (snd (post_api_chat_raw remote key clk hdr raw store)) = [rq]
              \<and> apiKey rq = key"
proof -
  have "req_message (typed_request message raw) = Some message"
    by (simp add: typed_request_def)
  from post_calls_once [OF this, of remote key clk hdr store] show ?thesis
    by (simp add: post_raw_typed [OF assms])
qed

lemma post_raw_status:
  "status (fst (post_api_chat_raw remote key clk hdr raw store)) = 200
   \<or> status (fst (post_api_chat_raw remote key clk hdr raw store)) = 500"
  by (cases "raw_message raw")
     (auto simp: post_api_chat_raw_def Let_def split: prod.splits sum.splits)

lemma post_raw_calls_key:
  assumes "rq \<in> set (snd (snd (post_api_chat_raw remote key clk hdr raw store)))"
  shows "apiKey rq = key"
proof -
  consider message where "raw_message raw = Value message" "raw_config raw \<noteq> Null"
    | "\<forall>message. raw_message raw \<noteq> Value message"
    | message where "raw_message raw = Value message" "raw_config raw = Null"
    by blast
  then show ?thesis
  proof cases
    case 1
    from post_raw_calls_once [OF this, of remote key clk hdr store] assms
    show ?thesis by auto
  next
    case 2
    then show ?thesis
      using assms by (simp add: post_raw_not_string)
  next
    case 3
    then show ?thesis
      using assms by (simp add: post_raw_null_config(2))
  qed
qed

lemma post_raw_fails_early:
  assumes "\<not> (\<exists>message. raw_message raw = Value message \<and> raw_config raw \<noteq> Null)"
  shows "status (fst (post_api_chat_raw remote key clk hdr raw store)) = 500
         \<and> snd (snd (post_api_chat_raw remote key clk hdr raw store)) = []"
proof -
  from assms consider "\<forall>message. raw_message raw \<noteq> Value message"
    | message where "raw_message raw = Value message" "raw_config raw = Null"
    by blast
  then show ?thesis
  proof cases
    case 1
    then show ?thesis by (simp add: post_raw_not_string)
  next
    case 2
    then show ?thesis by (simp add: post_raw_null_config)
  qed
qed

lemma body_empty_not_string: "\<forall>message. raw_message body_empty \<noteq> Value message"
  by (simp add: body_empty_def)

text \<open>
  C5, as stated, fails on the chatbot backend: the body \<^verbatim>\<open>{}\<close>, which has no field at all,
  is answered with status 500, which is not a 4xx status.
\<close>

theorem missing_message_gets_500:
  "fst (post_api_chat_raw remote_ok ''k'' clock0 None body_empty [])
     = \<lparr>status = 500,
        body = Error_body ''Failed to generate response'' (err_message substring_of_undefined)\<rparr>
   \<and> \<not> (400 \<le> status (fst (post_api_chat_raw remote_ok ''k'' clock0 None body_empty []))
        \<and> status (fst (post_api_chat_raw remote_ok ''k'' clock0 None body_empty [])) < 500)"
  using post_raw_not_string [OF body_empty_not_string, of remote_ok "''k''" clock0 None "[]"]
  by (simp add: body_empty_def substring_error_def)

text \<open>
  C5, amended. \<^verbatim>\<open>src/server.js\<close> rejects an absent or empty \<^verbatim>\<open>chatHistory\<close> with status 400
  and the error \<^verbatim>\<open>contents are required\<close>, without a model call. The handler of the chatbot
  backend has no validation and answers 200 or 500 only. A body whose \<^verbatim>\<open>message\<close> is absent,
  \<^verbatim>\<open>null\<close> or not a string fails at the first use of \<^verbatim>\<open>message\<close> and gets status 500
  from the catch-all, with no model call and the session store unchanged. A body with a string
  message and \<^verbatim>\<open>config: null\<close> fails at \<^verbatim>\<open>config.ragEnabled\<close> and gets status 500, with no
  model call. A body with a string message and any other config is handed to the model client
  once, whether \<^verbatim>\<open>chatHistory\<close> is absent, empty or a list of messages.
\<close>

theorem request_validation:
  "((chatHistory' = None \<or> chatHistory' = Some []) \<longrightarrow>
      server_js_post_chat sdk chatHistory'
        = (\<lparr>status = 400, body = Error_body ''contents are required'' None\<rparr>, []))
   \<and> (status (fst (post_api_chat_raw remote key clk hdr raw store)) = 200
        \<or> status (fst (post_api_chat_raw remote key clk hdr raw store)) = 500)
   \<and> ((\<forall>message. raw_message raw \<noteq> Value message) \<longrightarrow>
        post_api_chat_raw remote key clk hdr raw store
          = (\<lparr>status = 500,
              body = Error_body ''Failed to generate response''
                       (err_message (substring_error (raw_message raw)))\<rparr>, store, []))
   \<and> (raw_message raw = Value m \<and> raw_config raw = Null \<longrightarrow>
        fst (post_api_chat_raw remote key clk hdr raw store)
          = \<lparr>status = 500,
             body = Error_body ''Failed to generate response''
                      (err_message ragEnabled_of_null)\<rparr>
        \<and> snd (snd (post_api_chat_raw remote key clk hdr raw store)) = [])
   \<and> (raw_message raw = Value m \<and> raw_config raw \<noteq> Null \<longrightarrow>
        length (snd (snd (post_api_chat_raw remote key clk hdr raw store))) = 1)"
proof (intro conjI impI)
  assume "chatHistory' = None \<or> chatHistory' = Some []"
  then show "server_js_post_chat sdk chatHistory'
        = (\<lparr>status = 400, body = Error_body ''contents are required'' None\<rparr>, [])"
    by (rule server_js_rejects)
next
  show "status (fst (post_api_chat_raw remote key clk hdr raw store)) = 200
        \<or> status (fst (post_api_chat_raw remote key clk hdr raw store)) = 500"
    by (rule post_raw_status)
next
  assume "\<forall>message. raw_message raw \<noteq> Value message"
  then show "post_api_chat_raw remote key clk hdr raw store
          = (\<lparr>status = 500,
              body = Error_body ''Failed to generate response''
                       (err_message (substring_error (raw_message raw)))\<rparr>, store, [])"
    by (rule post_raw_not_string)
next
  assume a: "raw_message raw = Value m \<and> raw_config raw = Null"
  then show "fst (post_api_chat_raw remote key clk hdr raw store)
          = \<lparr>status = 500,
             body = Error_body ''Failed to generate response''
                      (err_message ragEnabled_of_null)\<rparr>"
    by (simp add: post_raw_null_config(1))
  from a show "snd (snd (post_api_chat_raw remote key clk hdr raw store)) = []"
    by (simp add: post_raw_null_config(2))
next
  assume a: "raw_message raw = Value m \<and> raw_config raw \<noteq> Null"
  then have "raw_message raw = Value m" and "raw_config raw \<noteq> Null"
    by simp_all
  from post_raw_calls_once [OF this, of remote key clk hdr store]
  show "length (snd (snd (post_api_chat_raw remote key clk hdr raw store))) = 1"
    by auto
qed

theorem request_validation_witness:
  "server_js_post_chat (\<lambda>rq. Inr (Some ''ok'')) (Some [])
     = (\<lparr>status = 400, body = Error_body ''contents are required'' None\<rparr>, [])
   \<and> post_api_chat_raw remote_ok ''k'' clock0 None body_number two_sessions
       = (\<lparr>status = 500,
           body = Error_body ''Failed to generate response''
                    (Some ''message.substring is not a function'')\<rparr>, two_sessions, [])
   \<and> fst (post_api_chat_raw remote_ok ''k'' clock0 None body_null_config two_sessions)
       = \<lparr>status = 500,
          body = Error_body ''Failed to generate response'' (err_message ragEnabled_of_null)\<rparr>
   \<and> snd (snd (post_api_chat_raw remote_ok ''k'' clock0 None body_null_config two_sessions)) = []
   \<and> length (snd (snd (post_api_chat_raw remote_ok ''k'' clock0 None body_hi two_sessions))) = 1"
proof -
  have n: "\<forall>message. raw_message body_number \<noteq> Value message"
    and e: "substring_error (raw_message body_number) = substring_not_a_function"
    by (simp_all add: body_number_def substring_error_def)
  have c: "raw_message body_null_config = Value ''hi'' \<and> raw_config body_null_config = Null"
    by (simp add: body_null_config_def)
  have h: "raw_message body_hi = Value ''hi'' \<and> raw_config body_hi \<noteq> Null"
    by (simp add: body_hi_def)
  show ?thesis
    using request_validation [of "Some []" "\<lambda>rq. Inr (Some ''ok'')" remote_ok "''k''" clock0
        None body_number two_sessions "''hi''"]
      request_validation [of "Some []" "\<lambda>rq. Inr (Some ''ok'')" remote_ok "''k''" clock0
        None body_null_config two_sessions "''hi''"]
      request_validation [of "Some []" "\<lambda>rq. Inr (Some ''ok'')" remote_ok "''k''" clock0
        None body_hi two_sessions "''hi''"]
      n e c h
    by (simp add: substring_not_a_function_def)
qed

lemma backend_start_no_key:
  assumes "env_key = None \<or> env_key = Some []"
  shows "fst (backend_start env_key) = Listening ''demo-key''"
    and "length (snd (backend_start env_key)) = 2"
  using assms by (auto simp: backend_start_def)

lemma backend_serve_calls:
  assumes "env_key = None \<or> env_key = Some []"
    and "raw_message raw = Value m" and "raw_config raw \<noteq> Null"
  shows "\<exists>rsp st rq. backend_serve env_key remote clk hdr raw store = Some (rsp, st, [rq])
                      \<and> apiKey rq = ''demo-key''"
proof -
  obtain rq where "snd (snd (post_api_chat_raw remote ''demo-key'' clk hdr raw store)) = [rq]"
    and "apiKey rq = ''demo-key''"
    using post_raw_calls_once [OF assms(2,3)] by blast
  then show ?thesis
    by (cases "post_api_chat_raw remote ''demo-key'' clk hdr raw store")
       (auto simp: backend_serve_def backend_start_no_key(1) [OF assms(1)])
qed

lemma backend_serve_fails_early:
  assumes "env_key = None \<or> env_key = Some []"
    and "\<not> (\<exists>message. raw_message raw = Value message \<and> raw_config raw \<noteq> Null)"
  shows "\<exists>rsp st. backend_serve env_key remote clk hdr raw store = Some (rsp, st, [])
                   \<and> status rsp = 500"
  using post_raw_fails_early [OF assms(2), of remote "''demo-key''" clk hdr store]
  by (cases "post_api_chat_raw remote ''demo-key'' clk hdr raw store")
     (auto simp: backend_serve_def backend_start_no_key(1) [OF assms(1)])

text \<open>
  C4, as stated, fails on the chatbot backend: started without a key it listens, and the chat
  request \<^verbatim>\<open>{"message": "hi"}\<close> makes a call to the remote model API, with the key
  \<^verbatim>\<open>demo-key\<close>.
\<close>

theorem missing_key_still_calls_remote:
  "fst (backend_start None) = Listening ''demo-key''
   \<and> (\<exists>rsp st rq. backend_serve None remote_ok clock0 None body_hi [] = Some (rsp, st, [rq])
                    \<and> apiKey rq = ''demo-key'')"
proof -
  have "raw_message body_hi = Value ''hi''" and "raw_config body_hi \<noteq> Null"
    by (simp_all add: body_hi_def)
  then show ?thesis
    using backend_serve_calls [of None body_hi "''hi''" remote_ok clock0 None "[]"]
    by (simp add: backend_start_def)
qed

text \<open>
  C4, amended. With the key missing or empty, \<^verbatim>\<open>src/server.js\<close> exits with code 1 and serves
  no request; the chatbot backend prints two warnings and listens with a client built with
  \<^verbatim>\<open>demo-key\<close>. It has no mode that avoids the remote call: a chat request whose message is
  a string and whose config is not \<^verbatim>\<open>null\<close> is handed to the model client once, with that
  key; every other chat request fails before generation and is answered 500 without a call.
\<close>

theorem missing_key_policy:
  assumes "env_key = None \<or> env_key = Some []"
  shows "fst (server_js_start env_key) = Exited 1
         \<and> server_js_serve env_key sdk chatHistory' = None
         \<and> fst (backend_start env_key) = Listening ''demo-key''
         \<and> length (snd (backend_start env_key)) = 2
         \<and> (raw_message raw = Value m \<and> raw_config raw \<noteq> Null \<longrightarrow>
               (\<exists>rsp st rq. backend_serve env_key remote clk hdr raw store = Some (rsp, st, [rq])
                              \<and> apiKey rq = ''demo-key''))
         \<and> (\<not> (\<exists>message. raw_message raw = Value message \<and> raw_config raw \<noteq> Null) \<longrightarrow>
               (\<exists>rsp st. backend_serve env_key remote clk hdr raw store = Some (rsp, st, [])
                           \<and> status rsp = 500))"
proof (intro conjI impI)
  show e: "fst (server_js_start env_key) = Exited 1"
    using assms by (auto simp: server_js_start_def)
  then show "server_js_serve env_key sdk chatHistory' = None"
    by (simp add: server_js_serve_def)
  show "fst (backend_start env_key) = Listening ''demo-key''"
    by (rule backend_start_no_key(1) [OF assms])
  show "length (snd (backend_start env_key)) = 2"
    by (rule backend_start_no_key(2) [OF assms])
next
  assume "raw_message raw = Value m \<and> raw_config raw \<noteq> Null"
  then have "raw_message raw = Value m" and "raw_config raw \<noteq> Null"
    by simp_all
  then show "\<exists>rsp st rq. backend_serve env_key remote clk hdr raw store = Some (rsp, st, [rq])
                         \<and> apiKey rq = ''demo-key''"
    by (rule backend_serve_calls [OF assms])
next
  assume "\<not> (\<exists>message. raw_message raw = Value message \<and> raw_config raw \<noteq> Null)"
  then show "\<exists>rsp st. backend_serve env_key remote clk hdr raw store = Some (rsp, st, [])
                      \<and> status rsp = 500"
    by (rule backend_serve_fails_early [OF assms])
qed

theorem missing_key_policy_witness:
  "fst (server_js_start None) = Exited 1
   \<and> server_js_serve None (\<lambda>rq. Inr (Some ''ok'')) (Some [(User, ''hi'')]) = None
   \<and> fst (backend_start None) = Listening ''demo-key''
   \<and> (\<exists>rsp st rq. backend_serve None remote_ok clock0 None body_hi [] = Some (rsp, st, [rq])
                    \<and> apiKey rq = ''demo-key'')
   \<and> (\<exists>rsp st. backend_serve None remote_ok clock0 None body_null_config []
                   = Some (rsp, st, []) \<and> status rsp = 500)"
proof -
  have h: "raw_message body_hi = Value ''hi'' \<and> raw_config body_hi \<noteq> Null"
    by (simp add: body_hi_def)
  have c: "\<not> (\<exists>message. raw_message body_null_config = Value message
                  \<and> raw_config body_null_config \<noteq> Null)"
    by (simp add: body_null_config_def)
  have c2: "raw_config body_null_config = Null"
    by (simp add: body_null_config_def)
  have n: "(None :: string option) = None \<or> (None :: string option) = Some []"
    by simp
  show ?thesis
    using missing_key_policy [OF n, of "\<lambda>rq. Inr (Some ''ok'')" "Some [(User, ''hi'')]"
        body_hi "''hi''" remote_ok clock0 None "[]"]
      missing_key_policy [OF n, of "\<lambda>rq. Inr (Some ''ok'')" "Some [(User, ''hi'')]"
        body_null_config "''hi''" remote_ok clock0 None "[]"]
      h c c2
    by simp
qed

section \<open>Properties of the stream endpoint\<close>

lemma generate_succeeding:
  assumes "\<forall>rq. remote rq = Inr t"
  shows "fst (generateGeminiResponse remote key msg h cfg) = Inr t"
  using assms by (simp add: generate_result)

lemma get_api_chat_stream_frames:
  assumes "\<forall>rq. remote rq = Inr t"
  shows "fst (get_api_chat_stream remote key clk msg sid store) = Streamed (sse_loop (sse_start t))"
proof -
  let ?sid = "case sid of None \<Rightarrow> ''default'' | Some x \<Rightarrow> x"
  obtain session store1 where g:
    "getOrCreateSession ?sid (t_created clk) (t_first clk) (t_touch clk) store = (session, store1)"
    by (cases "getOrCreateSession ?sid (t_created clk) (t_first clk) (t_touch clk) store")
  obtain calls where
    "generateGeminiResponse remote key msg (chatHistory session) empty_config = (Inr t, calls)"
    using generate_succeeding [OF assms, of key msg "chatHistory session" empty_config]
    by (cases "generateGeminiResponse remote key msg (chatHistory session) empty_config") simp
  then show ?thesis
    by (simp add: get_api_chat_stream_def Let_def g)
qed

lemma get_api_chat_stream_error:
  assumes "\<forall>rq. remote rq = Inl e" and "\<not> api_key_error e"
  shows "fst (get_api_chat_stream remote key clk msg sid store) = Stream_error (err_message e)"
proof -
  let ?sid = "case sid of None \<Rightarrow> ''default'' | Some x \<Rightarrow> x"
  obtain session store1 where g:
    "getOrCreateSession ?sid (t_created clk) (t_first clk) (t_touch clk) store = (session, store1)"
    by (cases "getOrCreateSession ?sid (t_created clk) (t_first clk) (t_touch clk) store")
  obtain rq where
    "generateGeminiResponse remote key msg (chatHistory session) empty_config = (Inl e, [rq])"
    using generate_failing_pair [OF assms(1), of key msg "chatHistory session" empty_config]
      assms(2) by auto
  then show ?thesis
    by (simp add: get_api_chat_stream_def Let_def g)
qed

end
